theory Spec2Isabelle
  imports Main
begin

section \<open>String helpers of the Go standard library\<close>

text \<open>
  Go strings are byte sequences; they are modelled as \<open>string\<close> (a list of 8-bit
  characters).  The helpers below follow the package \<open>strings\<close> for the separators the
  program uses (a single byte each).
\<close>

definition nl :: char where
  "nl = CHR 0x0A"

definition cr :: char where
  "cr = CHR 0x0D"

text \<open>
  \<open>strings.TrimSpace\<close> removes the leading and then the trailing white space, rune by
  rune, where the runes are read from the UTF-8 bytes and white space is what
  \<open>unicode.IsSpace\<close> holds of: U+0009 to U+000D, U+0020, U+0085, U+00A0, U+1680,
  U+2000 to U+200A, U+2028, U+2029, U+202F, U+205F and U+3000.  \<open>spaceRunes\<close> lists
  their UTF-8 encodings.  A rune at the front is white space when the string starts with one
  of these encodings, and the rune \<open>DecodeLastRuneInString\<close> reads at the back is white
  space when the string ends with one; bytes that are not valid UTF-8 decode to U+FFFD,
  which is not white space.  \<open>spaceWidth\<close> is the width of a leading white space rune
  (0 when there is none) and \<open>trimLead\<close> strips such runes while there is one.
\<close>

definition spaceRunes :: "string list" where
  "spaceRunes =
     [[CHR 0x09], [CHR 0x0A], [CHR 0x0B], [CHR 0x0C], [CHR 0x0D], [CHR 0x20],
      [CHR 0xC2, CHR 0x85], [CHR 0xC2, CHR 0xA0],
      [CHR 0xE1, CHR 0x9A, CHR 0x80],
      [CHR 0xE2, CHR 0x80, CHR 0x80], [CHR 0xE2, CHR 0x80, CHR 0x81],
      [CHR 0xE2, CHR 0x80, CHR 0x82], [CHR 0xE2, CHR 0x80, CHR 0x83],
      [CHR 0xE2, CHR 0x80, CHR 0x84], [CHR 0xE2, CHR 0x80, CHR 0x85],
      [CHR 0xE2, CHR 0x80, CHR 0x86], [CHR 0xE2, CHR 0x80, CHR 0x87],
      [CHR 0xE2, CHR 0x80, CHR 0x88], [CHR 0xE2, CHR 0x80, CHR 0x89],
      [CHR 0xE2, CHR 0x80, CHR 0x8A],
      [CHR 0xE2, CHR 0x80, CHR 0xA8], [CHR 0xE2, CHR 0x80, CHR 0xA9],
      [CHR 0xE2, CHR 0x80, CHR 0xAF],
      [CHR 0xE2, CHR 0x81, CHR 0x9F],
      [CHR 0xE3, CHR 0x80, CHR 0x80]]"

definition spaceWidth :: "string list \<Rightarrow> string \<Rightarrow> nat" where
  "spaceWidth encs s =
     (case find (\<lambda>e. e \<noteq> [] \<and> take (length e) s = e) encs of
        None \<Rightarrow> 0
      | Some e \<Rightarrow> length e)"

function trimLead :: "string list \<Rightarrow> string \<Rightarrow> string" where
  "trimLead encs s =
     (if spaceWidth encs s = 0 then s else trimLead encs (drop (spaceWidth encs s) s))"
  by pat_completeness auto
termination
proof (relation "measure (\<lambda>(encs, s). length s)")
  show "wf (measure (\<lambda>(encs, s). length s))" by simp
next
  fix encs :: "string list" and s :: string
  assume pos: "spaceWidth encs s \<noteq> 0"
  then obtain e where f: "find (\<lambda>e. e \<noteq> [] \<and> take (length e) s = e) encs = Some e"
    by (cases "find (\<lambda>e. e \<noteq> [] \<and> take (length e) s = e) encs") (simp_all add: spaceWidth_def)
  then have "e \<noteq> []" and "take (length e) s = e"
    by (auto simp add: find_Some_iff)
  then have "s \<noteq> []" by auto
  moreover have "spaceWidth encs s = length e"
    using f by (simp add: spaceWidth_def)
  ultimately show "((encs, drop (spaceWidth encs s) s), (encs, s)) \<in> measure (\<lambda>(encs, s). length s)"
    using \<open>e \<noteq> []\<close> by simp
qed

declare trimLead.simps [simp del]

definition TrimSpace :: "string \<Rightarrow> string" where
  "TrimSpace s = rev (trimLead (map rev spaceRunes) (rev (trimLead spaceRunes s)))"

definition HasPrefix :: "string \<Rightarrow> string \<Rightarrow> bool" where
  "HasPrefix s p = (take (length p) s = p)"

definition TrimPrefix :: "string \<Rightarrow> string \<Rightarrow> string" where
  "TrimPrefix s p = (if HasPrefix s p then drop (length p) s else s)"

definition HasSuffix :: "string \<Rightarrow> string \<Rightarrow> bool" where
  "HasSuffix s suf = (length suf \<le> length s \<and> drop (length s - length suf) s = suf)"

text \<open>\<open>strings.Split(s, sep)\<close> for a one-byte separator: always at least one piece.\<close>

fun Split :: "char \<Rightarrow> string \<Rightarrow> string list" where
  "Split c [] = [[]]"
| "Split c (x # xs) =
     (if x = c then [] # Split c xs
      else (case Split c xs of
              [] \<Rightarrow> [[x]]
            | y # ys \<Rightarrow> (x # y) # ys))"

text \<open>\<open>strings.SplitN(s, sep, 2)\<close> for a one-byte separator: cut at the first one.\<close>

definition SplitN2 :: "char \<Rightarrow> string \<Rightarrow> string list" where
  "SplitN2 c s =
     (if c \<in> set s then [takeWhile (\<lambda>x. x \<noteq> c) s, tl (dropWhile (\<lambda>x. x \<noteq> c) s)]
      else [s])"

text \<open>\<open>strings.Join\<close>.\<close>

fun Join :: "string list \<Rightarrow> string \<Rightarrow> string" where
  "Join [] sep = []"
| "Join [x] sep = x"
| "Join (x # y # ys) sep = x @ sep @ Join (y # ys) sep"

text \<open>
  \<open>bufio.Scanner\<close> with the default split function \<open>ScanLines\<close>: the text is cut at
  each newline, a final unterminated line counts when it is not empty, and one trailing
  carriage return is dropped from every line.  The scanner's buffer holds at most
  \<open>MaxScanTokenSize = 64 * 1024\<close> bytes: at the first line that does not fit, \<open>Scan\<close>
  returns false and the loop over the lines ends there.
\<close>

definition MaxScanTokenSize :: nat where
  "MaxScanTokenSize = 65536"

definition dropCR :: "string \<Rightarrow> string" where
  "dropCR l = (if l \<noteq> [] \<and> last l = cr then butlast l else l)"

definition rawLines :: "string \<Rightarrow> string list" where
  "rawLines s = (let ps = Split nl s in if last ps = [] then butlast ps else ps)"

definition scanLines :: "string \<Rightarrow> string list" where
  "scanLines s = map dropCR (takeWhile (\<lambda>l. length l < MaxScanTokenSize) (rawLines s))"

section \<open>Package git: running the external tool\<close>

text \<open>
  What \<open>exec.Command("git", args...).Output()\<close> can do: exit with status zero and some
  standard output, exit with a non-zero status (an \<open>*exec.ExitError\<close>, with its message
  and the captured standard error), or fail to run at all (any other error).
\<close>

datatype proc_result =
    Exited_ok string
  | Exit_error string string
  | Start_error string

text \<open>
  The collaborators outside the program: the git executable, the file system calls
  \<open>os.MkdirAll\<close> and \<open>os.Getwd\<close>, the environment variables, and the functions of
  \<open>path/filepath\<close>.
\<close>

record world =
  git :: "string list \<Rightarrow> proc_result"
  mkdirAll :: "string \<Rightarrow> string option"
  getwd :: "string + string"
  getenv :: "string \<Rightarrow> string"
  fpDir :: "string \<Rightarrow> string"
  fpBase :: "string \<Rightarrow> string"
  fpJoin :: "string \<Rightarrow> string \<Rightarrow> string"

text \<open>The verb \<open>%v\<close> of \<open>fmt\<close> on a slice of strings: \<open>[a b c]\<close>.\<close>

definition fmtArgs :: "string list \<Rightarrow> string" where
  "fmtArgs args = ''['' @ Join args '' '' @ '']''"

text \<open>
  \<open>runGit\<close>: one invocation of git.  The first component of the result is the trace of
  subprocess invocations made (their argument vectors), the second is the Go result:
  \<open>Inl\<close> the error text, \<open>Inr\<close> the standard output.
\<close>

definition runGit :: "world \<Rightarrow> string list \<Rightarrow> string list list \<times> (string + string)" where
  "runGit w args =
     ([args],
      (case git w args of
         Exited_ok out \<Rightarrow> Inr out
       | Exit_error err stderr \<Rightarrow>
           Inl (''git '' @ fmtArgs args @ '' failed: '' @ err @ [nl] @ stderr)
       | Start_error err \<Rightarrow> Inl err))"

section \<open>Package git: listing the worktrees\<close>

record Worktree =
  Path :: string
  Branch :: string
  HEAD :: string
  IsMain :: bool

definition emptyWorktree :: Worktree where
  "emptyWorktree = \<lparr>Path = [], Branch = [], HEAD = [], IsMain = False\<rparr>"

text \<open>The loop of \<open>ListWorktrees\<close> over the scanned lines, with its three variables.\<close>

fun wtLoop :: "string list \<Rightarrow> Worktree list \<Rightarrow> Worktree \<Rightarrow> bool \<Rightarrow> Worktree list" where
  "wtLoop [] wts wt inBlock = (if inBlock then wts @ [wt] else wts)"
| "wtLoop (line # rest) wts wt inBlock =
     (if HasPrefix line ''worktree '' then
        wtLoop rest (if inBlock then wts @ [wt] else wts)
          (emptyWorktree\<lparr>Path := TrimSpace (TrimPrefix line ''worktree ''), IsMain := True\<rparr>)
          True
      else if HasPrefix line ''branch '' then
        wtLoop rest wts (wt\<lparr>Branch := TrimSpace (TrimPrefix line ''branch '')\<rparr>) inBlock
      else if HasPrefix line ''HEAD '' then
        wtLoop rest wts (wt\<lparr>HEAD := TrimSpace (TrimPrefix line ''HEAD '')\<rparr>) inBlock
      else wtLoop rest wts wt inBlock)"

text \<open>The final pass: the first record is the main worktree, every other one is not.\<close>

definition markMain :: "Worktree list \<Rightarrow> Worktree list" where
  "markMain wts =
     (case wts of
        [] \<Rightarrow> []
      | x # xs \<Rightarrow> x\<lparr>IsMain := True\<rparr> # map (\<lambda>y. y\<lparr>IsMain := False\<rparr>) xs)"

definition parseWorktrees :: "string \<Rightarrow> Worktree list" where
  "parseWorktrees out = markMain (wtLoop (scanLines out) [] emptyWorktree False)"

definition ListWorktrees :: "world \<Rightarrow> string list list \<times> (string + Worktree list)" where
  "ListWorktrees w =
     (case runGit w [''worktree'', ''list'', ''--porcelain''] of
        (tr, Inl err) \<Rightarrow> (tr, Inl err)
      | (tr, Inr out) \<Rightarrow> (tr, Inr (parseWorktrees out)))"

section \<open>Package git: listing the branches\<close>

record Branch =
  Name :: string
  IsRemote :: bool
  Remote :: string
  RemoteRef :: string
  HasUpstream :: bool
  Upstream :: string
  UpstreamRemote :: string

definition emptyBranch :: Branch where
  "emptyBranch = \<lparr>Name = [], IsRemote = False, Remote = [], RemoteRef = [],
                   HasUpstream = False, Upstream = [], UpstreamRemote = []\<rparr>"

text \<open>
  One local line and the branch it yields, if any.  \<open>SplitN\<close> never returns an empty
  slice, so the test \<open>len(upParts) >= 1\<close> of the source always succeeds.
\<close>

definition localBranch :: "string \<Rightarrow> Branch option" where
  "localBranch l0 =
     (let l = TrimSpace l0 in
      if l = [] then None
      else
        let name = (if CHR ''|'' \<in> set l then TrimSpace (SplitN2 (CHR ''|'') l ! 0) else l);
            upstreamShort = (if CHR ''|'' \<in> set l then TrimSpace (SplitN2 (CHR ''|'') l ! 1) else [])
        in Some (if upstreamShort \<noteq> [] then
                   emptyBranch\<lparr>Name := name, HasUpstream := True, Upstream := upstreamShort,
                     UpstreamRemote := SplitN2 (CHR ''/'') upstreamShort ! 0\<rparr>
                 else emptyBranch\<lparr>Name := name\<rparr>))"

text \<open>
  The first loop of \<open>ListBranchesDetailed\<close>: every local branch is appended and its
  name recorded in \<open>seen\<close> (the Go map from names to \<open>true\<close>, here the set of its keys).
\<close>

fun localLoop :: "string list \<Rightarrow> Branch list \<Rightarrow> string set \<Rightarrow> Branch list \<times> string set" where
  "localLoop [] branches seen = (branches, seen)"
| "localLoop (l # rest) branches seen =
     (case localBranch l of
        None \<Rightarrow> localLoop rest branches seen
      | Some b \<Rightarrow> localLoop rest (branches @ [b]) (insert (Name b) seen))"

text \<open>
  The second loop: a remote ref is skipped when it is empty, ends in \<open>/HEAD\<close>, has no
  slash, or has a short name already seen.
\<close>

fun remoteLoop :: "string list \<Rightarrow> Branch list \<Rightarrow> string set \<Rightarrow> Branch list \<times> string set" where
  "remoteLoop [] branches seen = (branches, seen)"
| "remoteLoop (l0 # rest) branches seen =
     (let l = TrimSpace l0 in
      if l = [] then remoteLoop rest branches seen
      else if HasSuffix l ''/HEAD'' then remoteLoop rest branches seen
      else if length (SplitN2 (CHR ''/'') l) \<noteq> 2 then remoteLoop rest branches seen
      else
        let remote = SplitN2 (CHR ''/'') l ! 0;
            name = SplitN2 (CHR ''/'') l ! 1
        in if name \<in> seen then remoteLoop rest branches seen
           else remoteLoop rest
                  (branches @ [emptyBranch\<lparr>Name := name, IsRemote := True, Remote := remote,
                                 RemoteRef := l\<rparr>])
                  (insert name seen))"

definition localArgs :: "string list" where
  "localArgs = [''for-each-ref'', ''--sort=-committerdate'',
                ''--format=%(refname:short)|%(upstream:short)'', ''refs/heads'']"

definition remoteArgs :: "string list" where
  "remoteArgs = [''for-each-ref'', ''--sort=-committerdate'',
                 ''--format=%(refname:short)'', ''refs/remotes'']"

text \<open>
  \<open>ListBranchesDetailed\<close>: each query is used only when it succeeded
  (\<open>if err == nil\<close>), and the function always returns a nil error.
\<close>

definition ListBranchesDetailed :: "world \<Rightarrow> string list list \<times> (string + Branch list)" where
  "ListBranchesDetailed w =
     (let (tr1, r1) = runGit w localArgs;
          (bs1, seen1) = (case r1 of
                            Inr outLocal \<Rightarrow> localLoop (Split nl (TrimSpace outLocal)) [] {}
                          | Inl err \<Rightarrow> ([], {}));
          (tr2, r2) = runGit w remoteArgs;
          (bs2, seen2) = (case r2 of
                            Inr outRemote \<Rightarrow> remoteLoop (Split nl (TrimSpace outRemote)) bs1 seen1
                          | Inl err \<Rightarrow> (bs1, seen1))
      in (tr1 @ tr2, Inr bs2))"

section \<open>Package git: the mutation operations\<close>

definition CreateWorktreeFromRef ::
  "world \<Rightarrow> string \<Rightarrow> string \<Rightarrow> string \<Rightarrow> string list list \<times> string option" where
  "CreateWorktreeFromRef w branch targetDir fromRef =
     (if branch = [] \<or> targetDir = [] \<or> fromRef = [] then
        ([], Some ''branch, targetDir and fromRef required'')
      else case mkdirAll w (fpDir w targetDir) of
             Some err \<Rightarrow> ([], Some err)
           | None \<Rightarrow>
               (case runGit w [''worktree'', ''add'', ''-b'', branch, targetDir, fromRef] of
                  (tr, Inl err) \<Rightarrow> (tr, Some err)
                | (tr, Inr out) \<Rightarrow> (tr, None)))"

definition CreateWorktree ::
  "world \<Rightarrow> string \<Rightarrow> string \<Rightarrow> bool \<Rightarrow> string list list \<times> string option" where
  "CreateWorktree w branch targetDir createBranch =
     (if branch = [] \<or> targetDir = [] then ([], Some ''branch and targetDir required'')
      else case mkdirAll w (fpDir w targetDir) of
             Some err \<Rightarrow> ([], Some err)
           | None \<Rightarrow>
               (case runGit w (if createBranch then [''worktree'', ''add'', ''-b'', branch, targetDir]
                               else [''worktree'', ''add'', targetDir, branch]) of
                  (tr, Inl err) \<Rightarrow> (tr, Some err)
                | (tr, Inr out) \<Rightarrow> (tr, None)))"

definition RemoveWorktree :: "world \<Rightarrow> string \<Rightarrow> bool \<Rightarrow> string list list \<times> string option" where
  "RemoveWorktree w path force =
     (if path = [] then ([], Some ''path required'')
      else case runGit w ([''worktree'', ''remove''] @ (if force then [''--force''] else []) @ [path]) of
             (tr, Inl err) \<Rightarrow> (tr, Some err)
           | (tr, Inr out) \<Rightarrow> (tr, None))"

definition DefaultWorktreeDir :: "world \<Rightarrow> string \<Rightarrow> string" where
  "DefaultWorktreeDir w branch =
     (case getwd w of
        Inl err \<Rightarrow> fpJoin w ''.worktrees'' branch
      | Inr cwd \<Rightarrow> fpJoin w (fpDir w cwd) (fpBase w cwd @ ''-'' @ branch))"

section \<open>Package tui: the model\<close>

record item =
  title :: string
  desc :: string
  wt :: Worktree
  isAdd :: bool
  br :: Branch

datatype state = stateList | stateAddPick | stateAddNewInput | stateConfirmDelete

text \<open>
  The list widget, as far as the program reads and writes it: its items and the index of
  the selected one (\<open>SetItems\<close> replaces the items and leaves the index alone;
  pagination is not modelled).  The text input widget: its value and its focus.  The
  notice of a list is modelled by the command \<open>NewStatusMessage\<close> returns.
\<close>

record listModel =
  items :: "item list"
  cursor :: int

record inputModel =
  val :: string
  focused :: bool

text \<open>
  The commands \<open>Update\<close> hands back to the runtime.  A status message is the notice of
  one of the two lists; \<open>WidgetCmd\<close> stands for a command of the toolkit's own.
\<close>

datatype listId = MainList | BranchList

datatype cmd =
    NoCmd
  | Quit
  | LoadWorktrees
  | LoadBranches
  | StatusMessage listId string
  | ExecProcess string string
  | Batch "cmd list"
  | WidgetCmd nat

text \<open>The calls \<open>Update\<close> makes into package git, in order.\<close>

datatype call =
    RemoveWorktreeCall string bool
  | CreateWorktreeCall string string bool
  | CreateWorktreeFromRefCall string string string

text \<open>
  The toolkit outside the program: what the list and the text input do with a key they are
  handed, and how a label is rendered in a colour.
\<close>

record toolkit =
  listUpdate :: "listModel \<Rightarrow> string \<Rightarrow> listModel \<times> cmd"
  inputUpdate :: "inputModel \<Rightarrow> string \<Rightarrow> inputModel \<times> cmd"
  render :: "string \<Rightarrow> string \<Rightarrow> string"

text \<open>
  The model.  \<open>branchDel\<close> is the pointer to the branch delegate: \<open>None\<close> is nil,
  \<open>Some e\<close> a delegate whose field \<open>editing\<close> is \<open>e\<close>.  The frame style is left out.
\<close>

record model =
  state :: state
  list :: listModel
  branches :: listModel
  input :: inputModel
  confirmMsg :: string
  selected :: Worktree
  branchDel :: "bool option"
  confirmIndex :: int
  confirmPrev :: item

datatype msg =
    WindowSizeMsg int int
  | EditorDoneMsg "string option"
  | LoadedWorktreesMsg "Worktree list" "string option"
  | LoadedBranchesMsg "Branch list" "string option"
  | KeyMsg string
  | OtherMsg

definition emptyItem :: item where
  "emptyItem = \<lparr>title = [], desc = [], wt = emptyWorktree, isAdd = False, br = emptyBranch\<rparr>"

definition initialModel :: model where
  "initialModel =
     \<lparr>state = stateList,
      list = \<lparr>items = [], cursor = 0\<rparr>,
      branches = \<lparr>items = [], cursor = 0\<rparr>,
      input = \<lparr>val = [], focused = False\<rparr>,
      confirmMsg = [],
      selected = emptyWorktree,
      branchDel = Some False,
      confirmIndex = - 1,
      confirmPrev = emptyItem\<rparr>"

text \<open>\<open>Index\<close> and \<open>SelectedItem\<close> of the list widget (nil when nothing is selected).\<close>

definition Index :: "listModel \<Rightarrow> int" where
  "Index l = cursor l"

definition SelectedItem :: "listModel \<Rightarrow> item option" where
  "SelectedItem l =
     (if 0 \<le> cursor l \<and> cursor l < int (length (items l)) then Some (items l ! nat (cursor l))
      else None)"

definition editingNow :: "model \<Rightarrow> bool" where
  "editingNow m = (branchDel m = Some True)"

definition setEditing :: "bool \<Rightarrow> model \<Rightarrow> model" where
  "setEditing e m = m\<lparr>branchDel := Some e\<rparr>"

text \<open>\<open>updateAddItemTitle\<close> and \<open>resetAddItemTitle\<close>.\<close>

definition updateAddItemTitle :: "string \<Rightarrow> model \<Rightarrow> model" where
  "updateAddItemTitle v m =
     (case items (branches m) of
        [] \<Rightarrow> m
      | it0 # rest \<Rightarrow>
          if \<not> isAdd it0 then m
          else
            let t = (if TrimSpace v = [] \<and> \<not> editingNow m then ''[+] Create new branch'' else v)
            in m\<lparr>branches := (branches m)\<lparr>items := it0\<lparr>title := t\<rparr> # rest\<rparr>\<rparr>)"

definition resetAddItemTitle :: "model \<Rightarrow> model" where
  "resetAddItemTitle m = updateAddItemTitle [] m"

text \<open>
  The three places that put the saved item back: \<open>items[idx] = m.confirmPrev\<close> when
  \<open>idx\<close> is within the list.
\<close>

definition restorePrev :: "model \<Rightarrow> model" where
  "restorePrev m =
     (if 0 \<le> confirmIndex m \<and> confirmIndex m < int (length (items (list m))) then
        m\<lparr>list := (list m)\<lparr>items := (items (list m))[nat (confirmIndex m) := confirmPrev m]\<rparr>\<rparr>
      else m)"

text \<open>\<open>buildEditorCmd\<close>: \<open>$VISUAL\<close>, then \<open>$EDITOR\<close>, else an error.\<close>

definition buildEditorCmd :: "world \<Rightarrow> string \<Rightarrow> string + cmd" where
  "buildEditorCmd w path =
     (let editor = (if getenv w ''VISUAL'' = [] then getenv w ''EDITOR'' else getenv w ''VISUAL'')
      in if editor = [] then Inl ''$EDITOR not set'' else Inr (ExecProcess editor path))"

section \<open>Package tui: the loaded messages\<close>

definition stripRefs :: "string \<Rightarrow> string" where
  "stripRefs branch =
     (if HasPrefix branch ''refs/heads/'' then TrimPrefix branch ''refs/heads/''
      else if HasPrefix branch ''heads/'' then TrimPrefix branch ''heads/''
      else if HasPrefix branch ''refs/'' then TrimPrefix branch ''refs/''
      else branch)"

definition worktreeItem :: "toolkit \<Rightarrow> world \<Rightarrow> Worktree \<Rightarrow> item" where
  "worktreeItem tk w x =
     (let branch = stripRefs (if Branch x = [] then HEAD x else Branch x);
          segs = (if branch \<noteq> [] then [render tk ''Sky'' ''Branch:'' @ '' '' @ branch] else [])
                 @ [render tk ''Green'' ''Path:'' @ '' '' @ Path x]
      in emptyItem\<lparr>title := fpBase w (Path x), desc := Join segs ''  '', wt := x\<rparr>)"

definition addWorktreeItem :: item where
  "addWorktreeItem =
     emptyItem\<lparr>title := ''[+] Add new worktree'',
               desc := ''Create from existing or new branch'', isAdd := True\<rparr>"

definition branchItem :: "toolkit \<Rightarrow> Branch \<Rightarrow> item" where
  "branchItem tk b =
     (let d = (if \<not> IsRemote b then
                 (if TrimSpace (Upstream b) = [] then render tk ''Surface1'' ''No remote''
                  else render tk ''Blue'' ''Tracking:'' @ '' '' @ TrimSpace (Upstream b))
               else [])
      in emptyItem\<lparr>title := Name b, desc := d, br := b\<rparr>)"

definition addBranchItem :: item where
  "addBranchItem =
     emptyItem\<lparr>title := ''[+] Create new branch'', desc := ''Type a new branch name'',
               isAdd := True\<rparr>"

section \<open>Package tui: the keys of the worktree list\<close>

text \<open>\<open>enter\<close> in \<open>stateList\<close>: confirm a pending delete, open the branch picker, or open the editor.\<close>

definition listEnter :: "world \<Rightarrow> model \<Rightarrow> model \<times> cmd \<times> call list" where
  "listEnter w m =
     (if confirmIndex m \<noteq> - 1 \<and> Index (list m) = confirmIndex m then
        (if Path (selected m) \<noteq> [] then
           (case snd (RemoveWorktree w (Path (selected m)) True) of
              Some err \<Rightarrow>
                ((restorePrev m)\<lparr>confirmIndex := - 1\<rparr>,
                 StatusMessage MainList (''Error: '' @ err),
                 [RemoveWorktreeCall (Path (selected m)) True])
            | None \<Rightarrow>
                (m\<lparr>confirmIndex := - 1\<rparr>,
                 Batch [LoadWorktrees,
                        StatusMessage MainList (''Removed worktree '' @ fpBase w (Path (selected m)))],
                 [RemoveWorktreeCall (Path (selected m)) True]))
         else (m, NoCmd, []))
      else
        (case SelectedItem (list m) of
           None \<Rightarrow> (m, NoCmd, [])
         | Some it \<Rightarrow>
             if isAdd it then (m\<lparr>state := stateAddPick\<rparr>, LoadBranches, [])
             else if Path (wt it) \<noteq> [] then
               (case buildEditorCmd w (Path (wt it)) of
                  Inl err \<Rightarrow> (m, StatusMessage MainList (''No editor: '' @ err), [])
                | Inr c \<Rightarrow> (m, c, []))
             else (m, NoCmd, [])))"

definition confirmItem :: "item \<Rightarrow> item" where
  "confirmItem it =
     it\<lparr>title := ''Are you sure you want to delete: '' @ title it,
        desc := ''Yes: Enter    No: Esc''\<rparr>"

text \<open>\<open>d\<close> in \<open>stateList\<close>.\<close>

definition listDelete :: "model \<Rightarrow> model \<times> cmd \<times> call list" where
  "listDelete m =
     (case SelectedItem (list m) of
        None \<Rightarrow> (m, NoCmd, [])
      | Some it \<Rightarrow>
          if isAdd it then (m, NoCmd, [])
          else if IsMain (wt it) then
            (m, StatusMessage MainList ''Cannot delete main worktree'', [])
          else
            let m1 = (if confirmIndex m \<noteq> - 1 then (restorePrev m)\<lparr>confirmIndex := - 1\<rparr> else m);
                idx = Index (list m1)
            in (m1\<lparr>selected := wt it, confirmIndex := idx, confirmPrev := it,
                    list := (list m1)\<lparr>items := (items (list m1))[nat idx := confirmItem it]\<rparr>\<rparr>,
                NoCmd, []))"

definition updateList :: "toolkit \<Rightarrow> world \<Rightarrow> model \<Rightarrow> string \<Rightarrow> model \<times> cmd \<times> call list" where
  "updateList tk w m k =
     (if k = ''q'' \<or> k = ''ctrl+c'' then (m, Quit, [])
      else if k = ''esc'' then
        (if confirmIndex m \<noteq> - 1 then ((restorePrev m)\<lparr>confirmIndex := - 1\<rparr>, NoCmd, [])
         else (m, NoCmd, []))
      else if k = ''r'' then (m\<lparr>confirmIndex := - 1\<rparr>, LoadWorktrees, [])
      else if k = ''a'' then (m\<lparr>state := stateAddPick\<rparr>, LoadBranches, [])
      else if k = ''enter'' then listEnter w m
      else if k = ''d'' then listDelete m
      else (case listUpdate tk (list m) k of (l', c) \<Rightarrow> (m\<lparr>list := l'\<rparr>, c, [])))"

section \<open>Package tui: the keys of the branch picker\<close>

definition blurInput :: "model \<Rightarrow> model" where
  "blurInput m = m\<lparr>input := (input m)\<lparr>focused := False\<rparr>\<rparr>"

definition startInput :: "model \<Rightarrow> model" where
  "startInput m = m\<lparr>input := (input m)\<lparr>val := [], focused := True\<rparr>\<rparr>"

text \<open>The picker while the inline editor of the first entry is open.\<close>

definition updateEditing :: "toolkit \<Rightarrow> world \<Rightarrow> model \<Rightarrow> string \<Rightarrow> model \<times> cmd \<times> call list" where
  "updateEditing tk w m k =
     (if k = ''esc'' then (resetAddItemTitle (blurInput (setEditing False m)), NoCmd, [])
      else if k = ''enter'' then
        (let branch = TrimSpace (val (input m)) in
         if branch = [] then (m, NoCmd, [])
         else
           let path = DefaultWorktreeDir w branch in
           case snd (CreateWorktree w branch path True) of
             Some err \<Rightarrow>
               (m, StatusMessage BranchList (''Error: '' @ err), [CreateWorktreeCall branch path True])
           | None \<Rightarrow>
               ((resetAddItemTitle (blurInput (setEditing False m)))\<lparr>state := stateList\<rparr>,
                Batch [LoadWorktrees, StatusMessage MainList (''Created worktree '' @ fpBase w path)],
                [CreateWorktreeCall branch path True]))
      else (case inputUpdate tk (input m) k of
              (i', c) \<Rightarrow> (updateAddItemTitle (val i') (m\<lparr>input := i'\<rparr>), c, [])))"

text \<open>The picker otherwise.\<close>

definition pickEnter :: "world \<Rightarrow> model \<Rightarrow> model \<times> cmd \<times> call list" where
  "pickEnter w m =
     (case SelectedItem (branches m) of
        None \<Rightarrow> (m, NoCmd, [])
      | Some it \<Rightarrow>
          if isAdd it then
            (if branchDel m \<noteq> None then
               (updateAddItemTitle [] (startInput (setEditing True m)), NoCmd, [])
             else (m, NoCmd, []))
          else
            let branchName = Name (br it);
                path = DefaultWorktreeDir w branchName
            in (case snd (CreateWorktree w branchName path False) of
                  Some err \<Rightarrow>
                    (m, StatusMessage BranchList (''Error: '' @ err),
                     [CreateWorktreeCall branchName path False])
                | None \<Rightarrow>
                    (m\<lparr>state := stateList\<rparr>,
                     Batch [LoadWorktrees,
                            StatusMessage MainList (''Created worktree '' @ fpBase w path)],
                     [CreateWorktreeCall branchName path False])))"

definition updatePick :: "toolkit \<Rightarrow> world \<Rightarrow> model \<Rightarrow> string \<Rightarrow> model \<times> cmd \<times> call list" where
  "updatePick tk w m k =
     (if editingNow m then updateEditing tk w m k
      else if k = ''esc'' then (m\<lparr>state := stateList\<rparr>, NoCmd, [])
      else if k = ''n'' then
        (if branchDel m \<noteq> None then
           (updateAddItemTitle []
              ((startInput (setEditing True m))\<lparr>branches := (branches m)\<lparr>cursor := 0\<rparr>\<rparr>),
            NoCmd, [])
         else (m, NoCmd, []))
      else if k = ''enter'' then pickEnter w m
      else (case listUpdate tk (branches m) k of (l', c) \<Rightarrow> (m\<lparr>branches := l'\<rparr>, c, [])))"

section \<open>Package tui: the two states no transition enters\<close>

definition updateAddNewInput :: "toolkit \<Rightarrow> world \<Rightarrow> model \<Rightarrow> string \<Rightarrow> model \<times> cmd \<times> call list" where
  "updateAddNewInput tk w m k =
     (if k = ''esc'' then (m\<lparr>state := stateList\<rparr>, NoCmd, [])
      else if k = ''enter'' then
        (let branch = TrimSpace (val (input m)) in
         if branch = [] then (m, NoCmd, [])
         else
           let path = DefaultWorktreeDir w branch in
           case snd (CreateWorktree w branch path True) of
             Some err \<Rightarrow>
               (m\<lparr>state := stateList\<rparr>, StatusMessage MainList (''Error: '' @ err),
                [CreateWorktreeCall branch path True])
           | None \<Rightarrow>
               (m\<lparr>state := stateList\<rparr>,
                Batch [LoadWorktrees, StatusMessage MainList (''Created worktree '' @ fpBase w path)],
                [CreateWorktreeCall branch path True]))
      else (case inputUpdate tk (input m) k of (i', c) \<Rightarrow> (m\<lparr>input := i'\<rparr>, c, [])))"

definition updateConfirmDelete :: "world \<Rightarrow> model \<Rightarrow> string \<Rightarrow> model \<times> cmd \<times> call list" where
  "updateConfirmDelete w m k =
     (if k = ''esc'' then (m\<lparr>state := stateList\<rparr>, NoCmd, [])
      else if k = ''enter'' then
        (case snd (RemoveWorktree w (Path (selected m)) True) of
           Some err \<Rightarrow>
             (m\<lparr>state := stateList\<rparr>, StatusMessage MainList (''Error: '' @ err),
              [RemoveWorktreeCall (Path (selected m)) True])
         | None \<Rightarrow>
             (m\<lparr>state := stateList\<rparr>,
              Batch [LoadWorktrees,
                     StatusMessage MainList (''Removed worktree '' @ fpBase w (Path (selected m)))],
              [RemoveWorktreeCall (Path (selected m)) True]))
      else (m, NoCmd, []))"

section \<open>Package tui: Update\<close>

text \<open>
  \<open>Update\<close> returns the new model, the command for the runtime, and the calls it made
  into package git.  A window size message only moves sizes and styles, which the model
  above does not carry.
\<close>

definition Update :: "toolkit \<Rightarrow> world \<Rightarrow> model \<Rightarrow> msg \<Rightarrow> model \<times> cmd \<times> call list" where
  "Update tk w m ms =
     (case ms of
        WindowSizeMsg width height \<Rightarrow> (m, NoCmd, [])
      | EditorDoneMsg err \<Rightarrow> (m, Quit, [])
      | LoadedWorktreesMsg wts err \<Rightarrow>
          (case err of
             Some e \<Rightarrow> (m, StatusMessage MainList (''Error: '' @ e), [])
           | None \<Rightarrow>
               (m\<lparr>list := (list m)\<lparr>items := addWorktreeItem # map (worktreeItem tk w) wts\<rparr>,
                   confirmIndex := - 1\<rparr>,
                NoCmd, []))
      | LoadedBranchesMsg brs err \<Rightarrow>
          (case err of
             Some e \<Rightarrow> (m, StatusMessage BranchList (''Error: '' @ e), [])
           | None \<Rightarrow>
               (m\<lparr>branches := (branches m)\<lparr>items := addBranchItem # map (branchItem tk) brs\<rparr>\<rparr>,
                NoCmd, []))
      | KeyMsg k \<Rightarrow>
          if k = ''ctrl+c'' then (m, Quit, [])
          else (case state m of
                  stateList \<Rightarrow> updateList tk w m k
                | stateAddPick \<Rightarrow> updatePick tk w m k
                | stateAddNewInput \<Rightarrow> updateAddNewInput tk w m k
                | stateConfirmDelete \<Rightarrow> updateConfirmDelete w m k)
      | OtherMsg \<Rightarrow> (m, NoCmd, []))"

text \<open>
  The states the program can be in: the initial model, and every model \<open>Update\<close>
  returns from one of them, whatever the message, the toolkit and the world of that step.
\<close>

inductive reachable :: "model \<Rightarrow> bool" where
  reachable_init: "reachable initialModel"
| reachable_step: "reachable m \<Longrightarrow> Update tk w m ms = (m', c, cs) \<Longrightarrow> reachable m'"

section \<open>Vocabulary of the properties\<close>

text \<open>
  An output of \<open>git worktree list --porcelain\<close> is read in full when each of its lines
  fits the scanner; its blocks are counted by their \<open>worktree\<close> lines.  A line is
  recognised when it carries one of the three attributes the parser reads.
\<close>

definition fitsScanner :: "string \<Rightarrow> bool" where
  "fitsScanner out = list_all (\<lambda>l. length l < MaxScanTokenSize) (rawLines out)"

definition isPathLine :: "string \<Rightarrow> bool" where
  "isPathLine l = HasPrefix l ''worktree ''"

definition blockCount :: "string \<Rightarrow> nat" where
  "blockCount out = length (filter isPathLine (map dropCR (rawLines out)))"

definition recognised :: "string \<Rightarrow> bool" where
  "recognised l = (HasPrefix l ''worktree '' \<or> HasPrefix l ''branch '' \<or> HasPrefix l ''HEAD '')"

text \<open>The branches of a listing with a given short name.\<close>

definition named :: "string \<Rightarrow> Branch list \<Rightarrow> Branch list" where
  "named n bs = filter (\<lambda>b. Name b = n) bs"

text \<open>The local branches a successful local query yields, in order.\<close>

definition localsOf :: "string \<Rightarrow> Branch list" where
  "localsOf outLocal = fst (localLoop (Split nl (TrimSpace outLocal)) [] {})"

text \<open>The listing \<open>ListBranchesDetailed\<close> returns (it never returns an error).\<close>

definition listing :: "world \<Rightarrow> Branch list" where
  "listing w = (case snd (ListBranchesDetailed w) of Inr bs \<Rightarrow> bs | Inl err \<Rightarrow> [])"

text \<open>The world in which a git invocation that fails has printed nothing instead.\<close>

definition quiet :: "world \<Rightarrow> world" where
  "quiet w =
     w\<lparr>git := (\<lambda>args. case git w args of
                            Exited_ok out \<Rightarrow> Exited_ok out
                          | Exit_error err stderr \<Rightarrow> Exited_ok []
                          | Start_error err \<Rightarrow> Exited_ok [])\<rparr>"

definition wtArgs :: "string list" where
  "wtArgs = [''worktree'', ''list'', ''--porcelain'']"

text \<open>
  What holds of every reachable model: the state is never \<open>stateConfirmDelete\<close>, and
  while a confirmation is pending the worktree in \<open>selected\<close> is not the main one.
\<close>

definition deleteInv :: "model \<Rightarrow> bool" where
  "deleteInv m =
     (state m \<noteq> stateConfirmDelete \<and> (confirmIndex m = - 1 \<or> \<not> IsMain (selected m)))"

section \<open>A sample world and toolkit for the examples\<close>

text \<open>
  Path functions that agree with \<open>path/filepath\<close> on clean absolute paths of at least
  two elements, a git that answers the three listing queries, and widgets that move the
  cursor on \<open>j\<close> and append a typed key.
\<close>

definition sampleBase :: "string \<Rightarrow> string" where
  "sampleBase p = rev (takeWhile (\<lambda>c. c \<noteq> CHR ''/'') (rev p))"

definition sampleDir :: "string \<Rightarrow> string" where
  "sampleDir p = rev (tl (dropWhile (\<lambda>c. c \<noteq> CHR ''/'') (rev p)))"

definition sampleJoin :: "string \<Rightarrow> string \<Rightarrow> string" where
  "sampleJoin a b = a @ ''/'' @ b"

definition sampleOut :: string where
  "sampleOut = ''worktree /r'' @ [nl] @ ''bare'' @ [nl] @ ''worktree /r-b1'' @ [nl]
               @ ''branch refs/heads/b1'' @ [nl]"

definition sampleGit :: "string list \<Rightarrow> proc_result" where
  "sampleGit args =
     (if args = [''worktree'', ''list'', ''--porcelain''] then Exited_ok sampleOut
      else if args = localArgs then Exited_ok (''main|origin/main'' @ [nl] @ ''dev|'' @ [nl])
      else if args = remoteArgs then
        Exited_ok (''origin/HEAD'' @ [nl] @ ''origin/main'' @ [nl] @ ''origin/release'' @ [nl])
      else Exited_ok [])"

definition sampleWorld :: world where
  "sampleWorld =
     \<lparr>git = sampleGit, mkdirAll = (\<lambda>p. None), getwd = Inr ''/home/u/repo'',
      getenv = (\<lambda>v. []), fpDir = sampleDir, fpBase = sampleBase, fpJoin = sampleJoin\<rparr>"

text \<open>The same world with a git that exits with status 128 on every invocation.\<close>

definition failingWorld :: world where
  "failingWorld = sampleWorld\<lparr>git := (\<lambda>args. Exit_error ''exit status 128'' ''fatal: not a git repository'')\<rparr>"

text \<open>The same world where only the query for the local branches fails.\<close>

definition halfWorld :: world where
  "halfWorld =
     sampleWorld\<lparr>git := (\<lambda>args. if args = localArgs
                                  then Exit_error ''exit status 128'' ''fatal: bad object''
                                  else sampleGit args)\<rparr>"

definition sampleToolkit :: toolkit where
  "sampleToolkit =
     \<lparr>listUpdate = (\<lambda>l k. if k = ''j'' then (l\<lparr>cursor := cursor l + 1\<rparr>, NoCmd) else (l, NoCmd)),
      inputUpdate = (\<lambda>i k. (i\<lparr>val := val i @ k\<rparr>, NoCmd)),
      render = (\<lambda>colour s. s)\<rparr>"

text \<open>A toolkit whose list widget binds \<open>q\<close> to quitting.\<close>

definition quittingToolkit :: toolkit where
  "quittingToolkit =
     sampleToolkit\<lparr>listUpdate := (\<lambda>l k. if k = ''q'' then (l, Quit) else (l, NoCmd))\<rparr>"

text \<open>
  The sample world with two local branches, \<open>a\<close> and \<open>a|b\<close> (neither has an upstream),
  and the remote branch \<open>origin/a\<close>, as \<open>git for-each-ref\<close> prints them.
\<close>

definition pipeWorld :: world where
  "pipeWorld =
     sampleWorld\<lparr>git := (\<lambda>args. if args = localArgs then Exited_ok (''a|'' @ [nl] @ ''a|b|'' @ [nl])
                                  else if args = remoteArgs then Exited_ok (''origin/a'' @ [nl])
                                  else Exited_ok [])\<rparr>"

text \<open>
  Sample models: the list loaded with a main worktree and a second one, the cursor moved
  onto each, a pending confirmation on the second, the branch picker loaded with the
  sample listing, the picker with the cursor on the remote entry, and the picker with the
  inline editor open on two buffers.
\<close>

definition wtMain :: Worktree where
  "wtMain = emptyWorktree\<lparr>Path := ''/r'', IsMain := True\<rparr>"

definition wtB1 :: Worktree where
  "wtB1 = emptyWorktree\<lparr>Path := ''/r-b1'', Branch := ''refs/heads/b1''\<rparr>"

definition mLoaded :: model where
  "mLoaded = fst (Update sampleToolkit sampleWorld initialModel
                    (LoadedWorktreesMsg [wtMain, wtB1] None))"

definition mOnMain :: model where
  "mOnMain = fst (Update sampleToolkit sampleWorld mLoaded (KeyMsg ''j''))"

definition mOnB1 :: model where
  "mOnB1 = fst (Update sampleToolkit sampleWorld mOnMain (KeyMsg ''j''))"

definition mConfirm :: model where
  "mConfirm = fst (Update sampleToolkit sampleWorld mOnB1 (KeyMsg ''d''))"

definition brRelease :: Branch where
  "brRelease = emptyBranch\<lparr>Name := ''release'', IsRemote := True, Remote := ''origin'',
                            RemoteRef := ''origin/release''\<rparr>"

definition mPick :: model where
  "mPick = fst (Update sampleToolkit sampleWorld
                  (fst (Update sampleToolkit sampleWorld mLoaded (KeyMsg ''a'')))
                  (LoadedBranchesMsg [emptyBranch\<lparr>Name := ''dev''\<rparr>, brRelease] None))"

definition mPickRemote :: model where
  "mPickRemote = mPick\<lparr>branches := (branches mPick)\<lparr>cursor := 2\<rparr>\<rparr>"

definition mEditing :: "string \<Rightarrow> model" where
  "mEditing buffer =
     (fst (Update sampleToolkit sampleWorld mPick (KeyMsg ''n'')))
       \<lparr>input := \<lparr>val = buffer, focused = True\<rparr>\<rparr>"

text \<open>A run of \<open>Update\<close> over a sequence of messages in the sample world.\<close>

definition run :: "model \<Rightarrow> msg list \<Rightarrow> model" where
  "run m mss = foldl (\<lambda>x ms. fst (Update sampleToolkit sampleWorld x ms)) m mss"

definition wtB2 :: Worktree where
  "wtB2 = emptyWorktree\<lparr>Path := ''/r-b2'', Branch := ''refs/heads/b2''\<rparr>"

section \<open>Properties of the worktree listing\<close>

lemma wtLoop_length:
  "length (wtLoop ls wts x b) = length wts + (if b then 1 else 0) + length (filter isPathLine ls)"
  by (induction ls arbitrary: wts x b) (simp_all add: isPathLine_def)

lemma markMain_length: "length (markMain wts) = length wts"
  by (simp add: markMain_def split: list.split)

lemma markMain_nth: "i < length wts \<Longrightarrow> IsMain (markMain wts ! i) = (i = 0)"
  by (cases wts; cases i) (simp_all add: markMain_def)

lemma wtLoop_ignores:
  "wtLoop (filter recognised ls) wts x b = wtLoop ls wts x b"
  by (induction ls arbitrary: wts x b) (simp_all add: recognised_def)

lemma scanLines_fits:
  assumes "fitsScanner out"
  shows "scanLines out = map dropCR (rawLines out)"
proof -
  have "takeWhile (\<lambda>l. length l < MaxScanTokenSize) (rawLines out) = rawLines out"
    using assms unfolding fitsScanner_def list_all_iff by (intro takeWhile_eq_all_conv [THEN iffD2])
  then show ?thesis unfolding scanLines_def by (rule arg_cong)
qed

lemma sample_raw:
  "rawLines sampleOut = [''worktree /r'', ''bare'', ''worktree /r-b1'', ''branch refs/heads/b1'']"
  by (simp add: rawLines_def nl_def sampleOut_def)

text \<open>
  Claim C3.  When git succeeds with a porcelain text whose lines all fit the scanner,
  \<open>ListWorktrees\<close> returns as many records as the text has \<open>worktree\<close> lines, the
  record at index 0 is the only one with \<open>IsMain\<close> set, and the result is the same as on
  the text with every unrecognised line removed.
\<close>

theorem ListWorktrees_blocks:
  assumes "git w [''worktree'', ''list'', ''--porcelain''] = Exited_ok out"
    and "fitsScanner out"
  shows "snd (ListWorktrees w) = Inr (parseWorktrees out)
           \<and> length (parseWorktrees out) = blockCount out
           \<and> (\<forall>i < blockCount out. IsMain (parseWorktrees out ! i) = (i = 0))
           \<and> parseWorktrees out
               = markMain (wtLoop (filter recognised (scanLines out)) [] emptyWorktree False)"
proof -
  let ?wts = "parseWorktrees out"
  have r: "snd (ListWorktrees w) = Inr ?wts"
    using assms(1) by (simp add: ListWorktrees_def runGit_def)
  have len: "length ?wts = blockCount out"
    using scanLines_fits [OF assms(2)]
    by (simp add: parseWorktrees_def markMain_length wtLoop_length blockCount_def)
  have main: "\<forall>i < length ?wts. IsMain (?wts ! i) = (i = 0)"
    unfolding parseWorktrees_def using markMain_nth by (simp add: markMain_length)
  have ign: "?wts = markMain (wtLoop (filter recognised (scanLines out)) [] emptyWorktree False)"
    by (simp add: parseWorktrees_def wtLoop_ignores)
  from r len main ign show ?thesis by simp
qed

theorem ListWorktrees_blocks_witness:
  "snd (ListWorktrees sampleWorld) = Inr (parseWorktrees sampleOut)
     \<and> length (parseWorktrees sampleOut) = 2
     \<and> IsMain (parseWorktrees sampleOut ! 0)
     \<and> \<not> IsMain (parseWorktrees sampleOut ! 1)"
proof -
  have g: "git sampleWorld [''worktree'', ''list'', ''--porcelain''] = Exited_ok sampleOut"
    by (simp add: sampleWorld_def sampleGit_def)
  have f: "fitsScanner sampleOut"
    unfolding fitsScanner_def sample_raw by (simp add: MaxScanTokenSize_def)
  have n: "blockCount sampleOut = 2"
    unfolding blockCount_def sample_raw by (simp add: isPathLine_def HasPrefix_def dropCR_def cr_def)
  note t = ListWorktrees_blocks [OF g f]
  from t have c1: "snd (ListWorktrees sampleWorld) = Inr (parseWorktrees sampleOut)"
    by (rule conjunct1)
  from t n have c2: "length (parseWorktrees sampleOut) = 2"
    by (elim conjE) (rule trans)
  from t n have c3: "\<forall>i < 2. IsMain (parseWorktrees sampleOut ! i) = (i = 0)"
    by (elim conjE) (simp only:)
  from c3 have "IsMain (parseWorktrees sampleOut ! 0)" and "\<not> IsMain (parseWorktrees sampleOut ! 1)"
    by auto
  with c1 c2 show ?thesis by (intro conjI)
qed

section \<open>Properties of the branch listing\<close>

lemma localBranch_local: "localBranch l = Some b \<Longrightarrow> \<not> IsRemote b \<and> RemoteRef b = []"
  by (auto simp add: localBranch_def Let_def emptyBranch_def split: if_splits)

lemma localLoop_shape:
  "localLoop ls bs seen
     = (bs @ List.map_filter localBranch ls, seen \<union> Name ` set (List.map_filter localBranch ls))"
  by (induction ls arbitrary: bs seen) (auto simp add: List.map_filter_simps split: option.splits)

lemma localsOf_shape:
  "localLoop (Split nl (TrimSpace out)) [] {} = (localsOf out, Name ` set (localsOf out))"
  by (simp add: localsOf_def localLoop_shape)

lemma localsOf_local: "b \<in> set (localsOf out) \<Longrightarrow> \<not> IsRemote b \<and> RemoteRef b = []"
  using localBranch_local
  by (auto simp add: localsOf_def localLoop_shape List.map_filter_def)

lemma remoteLoop_shape:
  "\<exists>rs. remoteLoop ls bs seen = (bs @ rs, seen \<union> Name ` set rs)
       \<and> (\<forall>b \<in> set rs. IsRemote b \<and> Name b \<notin> seen \<and> \<not> HasSuffix (RemoteRef b) ''/HEAD'')"
proof (induction ls arbitrary: bs seen)
  case Nil
  then show ?case by simp
next
  case (Cons l0 rest)
  let ?l = "TrimSpace l0"
  let ?name = "SplitN2 (CHR ''/'') ?l ! 1"
  let ?nb = "emptyBranch\<lparr>Name := ?name, IsRemote := True,
               Remote := SplitN2 (CHR ''/'') ?l ! 0, RemoteRef := ?l\<rparr>"
  show ?case
  proof (cases "?l \<noteq> [] \<and> \<not> HasSuffix ?l ''/HEAD'' \<and> length (SplitN2 (CHR ''/'') ?l) = 2 \<and> ?name \<notin> seen")
    case False
    then have "remoteLoop (l0 # rest) bs seen = remoteLoop rest bs seen"
      by (auto simp add: Let_def)
    then show ?thesis using Cons.IH [of bs seen] by simp
  next
    case True
    then have step: "remoteLoop (l0 # rest) bs seen = remoteLoop rest (bs @ [?nb]) (insert ?name seen)"
      by (simp add: Let_def)
    from Cons.IH [of "bs @ [?nb]" "insert ?name seen"]
    obtain rs where rs: "remoteLoop rest (bs @ [?nb]) (insert ?name seen)
                           = ((bs @ [?nb]) @ rs, insert ?name seen \<union> Name ` set rs)"
      and all: "\<forall>b \<in> set rs. IsRemote b \<and> Name b \<notin> insert ?name seen
                  \<and> \<not> HasSuffix (RemoteRef b) ''/HEAD''"
      by blast
    have "remoteLoop (l0 # rest) bs seen = (bs @ (?nb # rs), seen \<union> Name ` set (?nb # rs))"
      using step rs by simp
    moreover have "\<forall>b \<in> set (?nb # rs). IsRemote b \<and> Name b \<notin> seen
                     \<and> \<not> HasSuffix (RemoteRef b) ''/HEAD''"
      using all True by simp
    ultimately show ?thesis by blast
  qed
qed

text \<open>The result of the whole function, in terms of the two loops.\<close>

lemma listing_shape:
  "\<exists>ls rs. snd (ListBranchesDetailed w) = Inr (ls @ rs)
     \<and> (\<forall>out. git w localArgs = Exited_ok out \<longrightarrow> ls = localsOf out)
     \<and> (\<forall>b \<in> set ls. \<not> IsRemote b \<and> RemoteRef b = [])
     \<and> (\<forall>b \<in> set rs. IsRemote b \<and> Name b \<notin> Name ` set ls \<and> \<not> HasSuffix (RemoteRef b) ''/HEAD'')"
proof -
  obtain ls seen1 where l1: "(case snd (runGit w localArgs) of
                            Inr outLocal \<Rightarrow> localLoop (Split nl (TrimSpace outLocal)) [] {}
                          | Inl err \<Rightarrow> ([], {})) = (ls, seen1)"
    by (cases "(case snd (runGit w localArgs) of
                            Inr outLocal \<Rightarrow> localLoop (Split nl (TrimSpace outLocal)) [] {}
                          | Inl err \<Rightarrow> ([], {}))") 
  have seen1: "seen1 = Name ` set ls" and loc: "\<forall>b \<in> set ls. \<not> IsRemote b \<and> RemoteRef b = []"
    and ex: "\<forall>out. git w localArgs = Exited_ok out \<longrightarrow> ls = localsOf out"
    using l1 localsOf_local
    by (auto simp add: runGit_def localsOf_shape split: proc_result.splits)
  obtain rs where r: "(case snd (runGit w remoteArgs) of
                            Inr outRemote \<Rightarrow> remoteLoop (Split nl (TrimSpace outRemote)) ls seen1
                          | Inl err \<Rightarrow> (ls, seen1)) = (ls @ rs, seen1 \<union> Name ` set rs)"
     and rem: "\<forall>b \<in> set rs. IsRemote b \<and> Name b \<notin> seen1 \<and> \<not> HasSuffix (RemoteRef b) ''/HEAD''"
  proof (cases "snd (runGit w remoteArgs)")
    case (Inl e)
    show ?thesis using that [of "[]"] Inl by simp
  next
    case (Inr outRemote)
    from remoteLoop_shape [of "Split nl (TrimSpace outRemote)" ls seen1]
    obtain rs where "remoteLoop (Split nl (TrimSpace outRemote)) ls seen1 = (ls @ rs, seen1 \<union> Name ` set rs)"
      "\<forall>b \<in> set rs. IsRemote b \<and> Name b \<notin> seen1 \<and> \<not> HasSuffix (RemoteRef b) ''/HEAD''"
      by blast
    then show ?thesis using that [of rs] Inr by simp
  qed
  have "snd (ListBranchesDetailed w) = Inr (ls @ rs)"
    using l1 r by (simp add: ListBranchesDetailed_def runGit_def Let_def split: prod.splits)
  with ex loc rem seen1 show ?thesis by blast
qed

lemma named_unique:
  "distinct (map Name bs) \<Longrightarrow> b \<in> set bs \<Longrightarrow> named (Name b) bs = [b]"
proof (induction bs)
  case Nil
  then show ?case by simp
next
  case (Cons a bs)
  show ?case
  proof (cases "b = a")
    case True
    have "Name a \<notin> Name ` set bs"
      using Cons.prems(1) by simp
    then have "\<forall>x \<in> set bs. Name x \<noteq> Name a"
      by (metis imageI)
    then have "named (Name a) bs = []"
      by (simp add: named_def filter_empty_conv)
    with True show ?thesis by (simp add: named_def)
  next
    case False
    with Cons.prems have "b \<in> set bs" and "Name a \<noteq> Name b" by auto
    with Cons show ?thesis by (simp add: named_def)
  qed
qed

lemma listing_eq: "snd (ListBranchesDetailed w) = Inr (listing w)"
  using listing_shape [of w] by (auto simp add: listing_def)

text \<open>
  What the merge does for names that are borne by one local entry: when the query for the
  local branches succeeds and the names it yields are pairwise different, then for every
  local entry \<open>b\<close> the merged listing has exactly one entry with the name of \<open>b\<close>,
  which is \<open>b\<close> itself and is not remote, whatever the remote query returns; and the
  listing is the local entries followed by remote entries only.
\<close>

lemma ListBranchesDetailed_local_wins:
  assumes "git w localArgs = Exited_ok out"
    and "b \<in> set (localsOf out)"
    and "distinct (map Name (localsOf out))"
  shows "snd (ListBranchesDetailed w) = Inr (listing w)
     \<and> take (length (localsOf out)) (listing w) = localsOf out
     \<and> list_all (\<lambda>x. \<not> IsRemote x) (localsOf out)
     \<and> list_all IsRemote (drop (length (localsOf out)) (listing w))
     \<and> named (Name b) (listing w) = [b]
     \<and> \<not> IsRemote b"
proof -
  from listing_shape [of w] assms(1)
  obtain rs where res: "snd (ListBranchesDetailed w) = Inr (localsOf out @ rs)"
    and loc: "\<forall>x \<in> set (localsOf out). \<not> IsRemote x \<and> RemoteRef x = []"
    and rem: "\<forall>x \<in> set rs. IsRemote x \<and> Name x \<notin> Name ` set (localsOf out)
                \<and> \<not> HasSuffix (RemoteRef x) ''/HEAD''"
    by blast
  have l: "listing w = localsOf out @ rs"
    using res by (simp add: listing_def)
  have "named (Name b) rs = []"
    using rem assms(2) by (auto simp add: named_def filter_empty_conv)
  then have n: "named (Name b) (listing w) = [b]"
    using named_unique [OF assms(3) assms(2)] l by (simp add: named_def)
  have a: "list_all (\<lambda>x. \<not> IsRemote x) (localsOf out)"
    using loc by (simp add: list_all_iff)
  have r: "list_all IsRemote (drop (length (localsOf out)) (listing w))"
    using rem l by (simp add: list_all_iff)
  from res l n a r loc assms(2) show ?thesis by simp
qed

lemma sample_listing:
  "listing sampleWorld
     = [emptyBranch\<lparr>Name := ''main'', HasUpstream := True, Upstream := ''origin/main'',
                     UpstreamRemote := ''origin''\<rparr>,
        emptyBranch\<lparr>Name := ''dev''\<rparr>,
        emptyBranch\<lparr>Name := ''release'', IsRemote := True, Remote := ''origin'',
                     RemoteRef := ''origin/release''\<rparr>]"
  by code_simp

text \<open>
  Claim C4 fails on the code where two local branches are given one name.  A local line is
  cut at its first \<open>|\<close>, so the branches \<open>a\<close> and \<open>a|b\<close> both get the name \<open>a\<close>;
  the first loop appends every local entry, and with the remote branch \<open>origin/a\<close> the
  merged listing has two entries for the short name \<open>a\<close>, not one.
\<close>

theorem ListBranchesDetailed_pipe_duplicates:
  "git pipeWorld localArgs = Exited_ok (''a|'' @ [nl] @ ''a|b|'' @ [nl])
   \<and> git pipeWorld remoteArgs = Exited_ok (''origin/a'' @ [nl])
   \<and> snd (ListBranchesDetailed pipeWorld)
       = Inr [emptyBranch\<lparr>Name := ''a''\<rparr>,
              emptyBranch\<lparr>Name := ''a'', HasUpstream := True, Upstream := ''b|'',
                          UpstreamRemote := ''b|''\<rparr>]
   \<and> length (named ''a'' (listing pipeWorld)) = 2"
  by code_simp

text \<open>
  Claim C5.  In every world, no entry of the listing \<open>ListBranchesDetailed\<close> returns
  has a remote ref ending in \<open>/HEAD\<close>.
\<close>

theorem ListBranchesDetailed_no_HEAD:
  "snd (ListBranchesDetailed w) = Inr (listing w)
     \<and> (\<forall>b \<in> set (listing w). \<not> HasSuffix (RemoteRef b) ''/HEAD'')"
proof -
  from listing_shape [of w]
  obtain ls rs where res: "snd (ListBranchesDetailed w) = Inr (ls @ rs)"
    and loc: "\<forall>x \<in> set ls. \<not> IsRemote x \<and> RemoteRef x = []"
    and rem: "\<forall>x \<in> set rs. IsRemote x \<and> Name x \<notin> Name ` set ls
                \<and> \<not> HasSuffix (RemoteRef x) ''/HEAD''"
    by blast
  have l: "listing w = ls @ rs"
    using res by (simp add: listing_def)
  have "\<not> HasSuffix [] ''/HEAD''" by (simp add: HasSuffix_def)
  with loc rem l res show ?thesis by auto
qed

theorem ListBranchesDetailed_no_HEAD_witness:
  "git sampleWorld remoteArgs
     = Exited_ok (''origin/HEAD'' @ [nl] @ ''origin/main'' @ [nl] @ ''origin/release'' @ [nl])
   \<and> map RemoteRef (listing sampleWorld) = [[], [], ''origin/release'']
   \<and> list_all (\<lambda>b. \<not> HasSuffix (RemoteRef b) ''/HEAD'') (listing sampleWorld)"
proof -
  have g: "git sampleWorld remoteArgs
     = Exited_ok (''origin/HEAD'' @ [nl] @ ''origin/main'' @ [nl] @ ''origin/release'' @ [nl])"
    by (simp add: sampleWorld_def sampleGit_def localArgs_def remoteArgs_def)
  have r: "map RemoteRef (listing sampleWorld) = [[], [], ''origin/release'']"
    unfolding sample_listing by (simp add: emptyBranch_def)
  from ListBranchesDetailed_no_HEAD [of sampleWorld]
  have "list_all (\<lambda>b. \<not> HasSuffix (RemoteRef b) ''/HEAD'') (listing sampleWorld)"
    by (simp add: list_all_iff)
  with g r show ?thesis by simp
qed

text \<open>
  Claim C2, as stated, fails for \<open>ListBranchesDetailed\<close>: where only the query for the
  local branches exits with a non-zero status, the function still returns a success, with
  the remote entries alone.
\<close>

theorem ListBranchesDetailed_swallows_failure:
  "git halfWorld localArgs = Exit_error ''exit status 128'' ''fatal: bad object''
   \<and> snd (ListBranchesDetailed halfWorld)
       = Inr [emptyBranch\<lparr>Name := ''main'', IsRemote := True, Remote := ''origin'',
                          RemoteRef := ''origin/main''\<rparr>,
              emptyBranch\<lparr>Name := ''release'', IsRemote := True, Remote := ''origin'',
                          RemoteRef := ''origin/release''\<rparr>]"
  by code_simp

lemma TrimSpace_Nil: "TrimSpace [] = []"
  by code_simp

lemma localLoop_empty: "localLoop (Split nl (TrimSpace [])) [] {} = ([], {})"
  by (simp add: TrimSpace_Nil localBranch_def)

lemma remoteLoop_empty: "remoteLoop (Split nl (TrimSpace [])) bs seen = (bs, seen)"
  by (simp add: TrimSpace_Nil)

lemma listing_quiet: "listing (quiet w) = listing w"
  by (simp add: listing_def ListBranchesDetailed_def runGit_def quiet_def localLoop_empty
      remoteLoop_empty TrimSpace_Nil localBranch_def split: proc_result.splits prod.splits)

text \<open>
  Claim C2, amended.  A non-zero exit of git surfaces from \<open>ListWorktrees\<close> as a
  failure that echoes the arguments and the standard error, after a single invocation and
  with no record.  \<open>ListBranchesDetailed\<close> runs each of its two queries once and always
  returns a success: its listing is the one it would return had every failing invocation
  printed nothing.
\<close>

theorem extractor_failures:
  assumes "git w wtArgs = Exit_error err stderr"
  shows "ListWorktrees w
           = ([wtArgs], Inl (''git [worktree list --porcelain] failed: '' @ err @ [nl] @ stderr))
     \<and> fst (ListBranchesDetailed w) = [localArgs, remoteArgs]
     \<and> snd (ListBranchesDetailed w) = Inr (listing w)
     \<and> listing w = listing (quiet w)"
proof -
  have a: "ListWorktrees w
           = ([wtArgs], Inl (''git [worktree list --porcelain] failed: '' @ err @ [nl] @ stderr))"
    using assms by (simp add: ListWorktrees_def runGit_def wtArgs_def fmtArgs_def)
  have b: "fst (ListBranchesDetailed w) = [localArgs, remoteArgs]"
    by (simp add: ListBranchesDetailed_def runGit_def Let_def split: prod.splits)
  from a b listing_eq [of w] listing_quiet [of w] show ?thesis by simp
qed

theorem extractor_failures_witness:
  "ListWorktrees failingWorld
     = ([wtArgs], Inl (''git [worktree list --porcelain] failed: exit status 128''
                        @ [nl] @ ''fatal: not a git repository''))
   \<and> fst (ListBranchesDetailed failingWorld) = [localArgs, remoteArgs]
   \<and> snd (ListBranchesDetailed failingWorld) = Inr (listing failingWorld)"
proof -
  have g: "git failingWorld wtArgs = Exit_error ''exit status 128'' ''fatal: not a git repository''"
    by (simp add: failingWorld_def)
  from extractor_failures [OF g] show ?thesis by simp
qed

section \<open>Properties of the branch picker\<close>

lemma mPickRemote_state: "state mPickRemote = stateAddPick \<and> \<not> editingNow mPickRemote"
  by code_simp

lemma mPickRemote_sel: "SelectedItem (branches mPickRemote) = Some (branchItem sampleToolkit brRelease)"
  by code_simp

text \<open>
  Claim C1, as stated, fails: with the remote entry \<open>origin/release\<close> selected in the
  picker, \<open>enter\<close> calls \<open>CreateWorktree\<close> with the short name and the flag false; it
  does not call \<open>CreateWorktreeFromRef\<close> and the remote ref is not passed.
\<close>

theorem pick_enter_remote_counterexample:
  "IsRemote brRelease
   \<and> RemoteRef brRelease = ''origin/release''
   \<and> SelectedItem (branches mPickRemote) = Some (branchItem sampleToolkit brRelease)
   \<and> snd (snd (Update sampleToolkit sampleWorld mPickRemote (KeyMsg ''enter'')))
       = [CreateWorktreeCall ''release'' ''/home/u/repo-release'' False]
   \<and> CreateWorktreeFromRefCall ''release'' ''/home/u/repo-release'' ''origin/release''
       \<notin> set (snd (snd (Update sampleToolkit sampleWorld mPickRemote (KeyMsg ''enter''))))"
  by code_simp

text \<open>
  Claim C1, amended.  In the picker, not editing, \<open>enter\<close> on an entry that is not the
  synthetic one (remote or local alike) calls \<open>CreateWorktree\<close> once, with the entry's
  short name, the default directory of that name and the flag false.  When the call
  succeeds the state becomes \<open>stateList\<close> with a refresh and a notice; when it fails the
  model is unchanged and the notice carries the error.
\<close>

theorem pick_enter_branch:
  assumes "state m = stateAddPick" and "\<not> editingNow m"
    and "SelectedItem (branches m) = Some it" and "\<not> isAdd it"
  shows "Update tk w m (KeyMsg ''enter'')
           = (case snd (CreateWorktree w (Name (br it)) (DefaultWorktreeDir w (Name (br it))) False) of
                None \<Rightarrow>
                  (m\<lparr>state := stateList\<rparr>,
                   Batch [LoadWorktrees,
                          StatusMessage MainList
                            (''Created worktree '' @ fpBase w (DefaultWorktreeDir w (Name (br it))))],
                   [CreateWorktreeCall (Name (br it)) (DefaultWorktreeDir w (Name (br it))) False])
              | Some err \<Rightarrow>
                  (m, StatusMessage BranchList (''Error: '' @ err),
                   [CreateWorktreeCall (Name (br it)) (DefaultWorktreeDir w (Name (br it))) False]))"
  using assms by (simp add: Update_def updatePick_def pickEnter_def Let_def split: option.splits)

theorem pick_enter_branch_witness:
  "Update sampleToolkit sampleWorld mPickRemote (KeyMsg ''enter'')
     = (mPickRemote\<lparr>state := stateList\<rparr>,
        Batch [LoadWorktrees, StatusMessage MainList ''Created worktree repo-release''],
        [CreateWorktreeCall ''release'' ''/home/u/repo-release'' False])"
proof -
  have n: "Name (br (branchItem sampleToolkit brRelease)) = ''release''" by code_simp
  have d: "DefaultWorktreeDir sampleWorld ''release'' = ''/home/u/repo-release''" by code_simp
  have c: "snd (CreateWorktree sampleWorld ''release'' ''/home/u/repo-release'' False) = None" by code_simp
  have b: "fpBase sampleWorld ''/home/u/repo-release'' = ''repo-release''" by code_simp
  have a: "\<not> isAdd (branchItem sampleToolkit brRelease)" by code_simp
  from pick_enter_branch [OF conjunct1 [OF mPickRemote_state] conjunct2 [OF mPickRemote_state] mPickRemote_sel a,
      of sampleToolkit sampleWorld]
  show ?thesis unfolding n d c b by simp
qed

text \<open>
  Claim C6.  While the inline editor is open, \<open>enter\<close> on a buffer whose trimmed value
  is not empty (\<open>feature-x\<close>, say) calls \<open>CreateWorktree\<close> once with that branch, the directory
  \<open>DefaultWorktreeDir\<close> gives for it and the flag true; where the working directory can
  be read, \<open>DefaultWorktreeDir\<close> of a branch is the parent of the working directory
  joined with its base name, a dash and the branch; and \<open>enter\<close> on a buffer that trims
  to nothing makes no call and returns the model as it was.
\<close>

theorem editing_enter:
  assumes "state m = stateAddPick" and "editingNow m"
  shows "(TrimSpace (val (input m)) = branch \<and> branch \<noteq> [] \<longrightarrow>
            snd (snd (Update tk w m (KeyMsg ''enter'')))
              = [CreateWorktreeCall branch (DefaultWorktreeDir w branch) True])
       \<and> (\<forall>cwd. getwd w = Inr cwd \<longrightarrow>
            DefaultWorktreeDir w branch = fpJoin w (fpDir w cwd) (fpBase w cwd @ ''-'' @ branch))
       \<and> (TrimSpace (val (input m)) = [] \<longrightarrow> Update tk w m (KeyMsg ''enter'') = (m, NoCmd, []))"
  using assms
  by (simp add: Update_def updatePick_def updateEditing_def Let_def DefaultWorktreeDir_def
      split: option.splits)

lemma mEditing_state: "state (mEditing b) = stateAddPick \<and> editingNow (mEditing b)"
  by (simp add: mEditing_def mPick_def mLoaded_def Update_def updateList_def updatePick_def
      editingNow_def initialModel_def updateAddItemTitle_def startInput_def setEditing_def
      split: list.splits)

theorem editing_enter_witness:
  "snd (snd (Update sampleToolkit sampleWorld
               (mEditing ('' feature-x'' @ [CHR 0xE3, CHR 0x80, CHR 0x80])) (KeyMsg ''enter'')))
     = [CreateWorktreeCall ''feature-x'' ''/home/u/repo-feature-x'' True]
   \<and> Update sampleToolkit sampleWorld (mEditing [CHR 0x20, CHR 0xC2, CHR 0xA0, CHR 0x09])
         (KeyMsg ''enter'')
       = (mEditing [CHR 0x20, CHR 0xC2, CHR 0xA0, CHR 0x09], NoCmd, [])
   \<and> state (mEditing [CHR 0x20, CHR 0xC2, CHR 0xA0, CHR 0x09]) = stateAddPick"
proof -
  let ?f = "'' feature-x'' @ [CHR 0xE3, CHR 0x80, CHR 0x80]"
  let ?b = "[CHR 0x20, CHR 0xC2, CHR 0xA0, CHR 0x09]"
  have t1: "TrimSpace (val (input (mEditing ?f))) = ''feature-x''"
    by code_simp
  have t2: "TrimSpace (val (input (mEditing ?b))) = []"
    by code_simp
  have g: "getwd sampleWorld = Inr ''/home/u/repo''"
    by (simp add: sampleWorld_def)
  have j: "fpJoin sampleWorld (fpDir sampleWorld ''/home/u/repo'')
             (fpBase sampleWorld ''/home/u/repo'' @ ''-'' @ ''feature-x'') = ''/home/u/repo-feature-x''"
    by (simp add: sampleWorld_def sampleJoin_def sampleDir_def sampleBase_def)
  note a = editing_enter [where m = "mEditing ?f" and tk = sampleToolkit
      and w = sampleWorld and branch = "''feature-x''",
      OF conjunct1 [OF mEditing_state] conjunct2 [OF mEditing_state]]
  note b = editing_enter [where m = "mEditing ?b" and tk = sampleToolkit
      and w = sampleWorld and branch = "''feature-x''",
      OF conjunct1 [OF mEditing_state] conjunct2 [OF mEditing_state]]
  from a t1 g j have "snd (snd (Update sampleToolkit sampleWorld (mEditing ?f) (KeyMsg ''enter'')))
     = [CreateWorktreeCall ''feature-x'' ''/home/u/repo-feature-x'' True]"
    by simp
  moreover from b t2 have "Update sampleToolkit sampleWorld (mEditing ?b) (KeyMsg ''enter'')
       = (mEditing ?b, NoCmd, [])"
    by simp
  ultimately show ?thesis using mEditing_state by simp
qed

section \<open>Properties of the delete confirmation\<close>

lemma updateAddItemTitle_fields:
  "state (updateAddItemTitle v m) = state m
   \<and> selected (updateAddItemTitle v m) = selected m
   \<and> confirmIndex (updateAddItemTitle v m) = confirmIndex m
   \<and> list (updateAddItemTitle v m) = list m"
  by (simp add: updateAddItemTitle_def Let_def split: list.splits)

lemma restorePrev_fields:
  "state (restorePrev m) = state m \<and> selected (restorePrev m) = selected m
   \<and> confirmIndex (restorePrev m) = confirmIndex m \<and> confirmPrev (restorePrev m) = confirmPrev m"
  by (simp add: restorePrev_def)

lemma SelectedItem_cursor:
  "SelectedItem l = Some it \<Longrightarrow> 0 \<le> cursor l \<and> cursor l < int (length (items l)) \<and> it = items l ! nat (cursor l)"
  by (auto simp add: SelectedItem_def split: if_splits)

lemma listDelete_inv:
  assumes "deleteInv m" and "state m = stateList"
  shows "deleteInv (fst (listDelete m))"
proof (cases "SelectedItem (list m)")
  case None
  then show ?thesis using assms by (simp add: listDelete_def)
next
  case (Some it)
  then show ?thesis using assms SelectedItem_cursor [OF Some]
    by (auto simp add: listDelete_def deleteInv_def Let_def restorePrev_fields Index_def restorePrev_def)
qed

lemma listEnter_inv:
  assumes "deleteInv m" and "state m = stateList"
  shows "deleteInv (fst (listEnter w m))"
  using assms
  by (auto simp add: listEnter_def deleteInv_def restorePrev_fields
      split: option.splits sum.splits if_splits)

lemma updateList_inv:
  assumes "deleteInv m" and "state m = stateList"
  shows "deleteInv (fst (updateList tk w m k))"
proof -
  have "deleteInv (fst (case listUpdate tk (list m) k of (l', c) \<Rightarrow> (m\<lparr>list := l'\<rparr>, c, [])))"
    using assms by (simp add: deleteInv_def split: prod.splits)
  then show ?thesis
    using assms listDelete_inv [OF assms] listEnter_inv [OF assms]
    by (auto simp add: updateList_def deleteInv_def restorePrev_fields)
qed

lemma updateEditing_inv:
  assumes "deleteInv m" and "state m = stateAddPick"
  shows "deleteInv (fst (updateEditing tk w m k))"
  using assms
  by (auto simp add: updateEditing_def deleteInv_def Let_def updateAddItemTitle_fields
      resetAddItemTitle_def blurInput_def setEditing_def split: option.splits prod.splits)

lemma pickEnter_inv:
  assumes "deleteInv m" and "state m = stateAddPick"
  shows "deleteInv (fst (pickEnter w m))"
  using assms
  by (auto simp add: pickEnter_def deleteInv_def Let_def updateAddItemTitle_fields
      startInput_def setEditing_def split: option.splits)

lemma updatePick_inv:
  assumes "deleteInv m" and "state m = stateAddPick"
  shows "deleteInv (fst (updatePick tk w m k))"
proof -
  have "deleteInv (fst (case listUpdate tk (branches m) k of (l', c) \<Rightarrow> (m\<lparr>branches := l'\<rparr>, c, [])))"
    using assms by (simp add: deleteInv_def split: prod.splits)
  then show ?thesis
    using assms updateEditing_inv [OF assms] pickEnter_inv [OF assms]
    by (auto simp add: updatePick_def deleteInv_def updateAddItemTitle_fields startInput_def setEditing_def)
qed

lemma updateAddNewInput_inv:
  assumes "deleteInv m"
  shows "deleteInv (fst (updateAddNewInput tk w m k))"
  using assms
  by (auto simp add: updateAddNewInput_def deleteInv_def Let_def split: option.splits prod.splits)

lemma Update_inv:
  assumes "deleteInv m"
  shows "deleteInv (fst (Update tk w m ms))"
proof (cases ms)
  case (KeyMsg k)
  show ?thesis
  proof (cases "state m")
    case stateList
    with KeyMsg assms updateList_inv [OF assms stateList] show ?thesis by (simp add: Update_def)
  next
    case stateAddPick
    with KeyMsg assms updatePick_inv [OF assms stateAddPick] show ?thesis by (simp add: Update_def)
  next
    case stateAddNewInput
    with KeyMsg assms updateAddNewInput_inv [OF assms] show ?thesis by (simp add: Update_def)
  next
    case stateConfirmDelete
    with assms show ?thesis by (simp add: deleteInv_def)
  qed
qed (use assms in \<open>auto simp add: Update_def deleteInv_def split: option.splits\<close>)

lemma reachable_inv: "reachable m \<Longrightarrow> deleteInv m"
proof (induction rule: reachable.induct)
  case reachable_init
  show ?case by (simp add: deleteInv_def initialModel_def)
next
  case (reachable_step m tk w ms m' c cs)
  from Update_inv [OF reachable_step.IH, of tk w ms] reachable_step.hyps(2)
  show ?case by simp
qed

lemma reachable_fst: "reachable m \<Longrightarrow> reachable (fst (Update tk w m ms))"
  by (rule reachable_step [where c = "fst (snd (Update tk w m ms))" and cs = "snd (snd (Update tk w m ms))"]) simp_all

lemma remove_calls:
  assumes "deleteInv m"
    and "RemoveWorktreeCall p f \<in> set (snd (snd (Update tk w m ms)))"
  shows "p = Path (selected m) \<and> f \<and> \<not> IsMain (selected m) \<and> state m = stateList"
proof (cases ms)
  case (KeyMsg k)
  show ?thesis
  proof (cases "state m")
    case stateList
    with KeyMsg assms show ?thesis
      by (auto simp add: Update_def updateList_def listEnter_def listDelete_def deleteInv_def Let_def
          split: if_splits option.splits sum.splits prod.splits)
  next
    case stateAddPick
    with KeyMsg assms show ?thesis
      by (auto simp add: Update_def updatePick_def updateEditing_def pickEnter_def Let_def
          split: if_splits option.splits prod.splits)
  next
    case stateAddNewInput
    with KeyMsg assms show ?thesis
      by (auto simp add: Update_def updateAddNewInput_def Let_def
          split: if_splits option.splits prod.splits)
  next
    case stateConfirmDelete
    with assms show ?thesis by (simp add: deleteInv_def)
  qed
qed (use assms in \<open>auto simp add: Update_def split: option.splits\<close>)

text \<open>
  Claim C7.  From a reachable model, whatever the message, every call of
  \<open>RemoveWorktree\<close> that \<open>Update\<close> makes is on the path of the worktree in
  \<open>selected\<close>, which is not the main one.  In \<open>stateList\<close>, \<open>d\<close> on an entry whose
  worktree is the main one returns the model unchanged (so the state stays
  \<open>stateList\<close>), a notice, and no call.
\<close>

theorem primary_never_removed:
  "(reachable m \<and> RemoveWorktreeCall p f \<in> set (snd (snd (Update tk w m ms)))
      \<longrightarrow> p = Path (selected m) \<and> \<not> IsMain (selected m))
   \<and> (state m = stateList \<and> SelectedItem (list m) = Some it \<and> \<not> isAdd it \<and> IsMain (wt it)
      \<longrightarrow> Update tk w m (KeyMsg ''d'')
            = (m, StatusMessage MainList ''Cannot delete main worktree'', []))"
proof (intro conjI impI)
  assume a: "reachable m \<and> RemoveWorktreeCall p f \<in> set (snd (snd (Update tk w m ms)))"
  from remove_calls [OF reachable_inv, of m p f tk w ms] a
  show "p = Path (selected m)" and "\<not> IsMain (selected m)" by simp_all
next
  assume "state m = stateList \<and> SelectedItem (list m) = Some it \<and> \<not> isAdd it \<and> IsMain (wt it)"
  then show "Update tk w m (KeyMsg ''d'')
            = (m, StatusMessage MainList ''Cannot delete main worktree'', [])"
    by (simp add: Update_def updateList_def listDelete_def)
qed

lemma reachable_mConfirm: "reachable mConfirm \<and> reachable mOnMain"
  unfolding mConfirm_def mOnB1_def mOnMain_def mLoaded_def
  by (intro conjI reachable_fst reachable_init)

theorem primary_never_removed_witness:
  "reachable mConfirm
   \<and> snd (snd (Update sampleToolkit sampleWorld mConfirm (KeyMsg ''enter'')))
       = [RemoveWorktreeCall ''/r-b1'' True]
   \<and> ''/r-b1'' = Path (selected mConfirm)
   \<and> \<not> IsMain (selected mConfirm)
   \<and> SelectedItem (list mOnMain) = Some (worktreeItem sampleToolkit sampleWorld wtMain)
   \<and> Update sampleToolkit sampleWorld mOnMain (KeyMsg ''d'')
       = (mOnMain, StatusMessage MainList ''Cannot delete main worktree'', [])"
proof -
  have c: "snd (snd (Update sampleToolkit sampleWorld mConfirm (KeyMsg ''enter'')))
       = [RemoveWorktreeCall ''/r-b1'' True]"
    by code_simp
  have s: "state mOnMain = stateList" by code_simp
  have i: "SelectedItem (list mOnMain) = Some (worktreeItem sampleToolkit sampleWorld wtMain)"
    by code_simp
  have a: "\<not> isAdd (worktreeItem sampleToolkit sampleWorld wtMain)
           \<and> IsMain (wt (worktreeItem sampleToolkit sampleWorld wtMain))"
    by code_simp
  note t1 = primary_never_removed [of mConfirm "''/r-b1''" True sampleToolkit sampleWorld "KeyMsg ''enter''",
      THEN conjunct1]
  note t2 = primary_never_removed [of mOnMain _ _ sampleToolkit sampleWorld _
      "worktreeItem sampleToolkit sampleWorld wtMain", THEN conjunct2]
  from t1 c reachable_mConfirm have "''/r-b1'' = Path (selected mConfirm) \<and> \<not> IsMain (selected mConfirm)"
    by simp
  moreover from t2 s i a have "Update sampleToolkit sampleWorld mOnMain (KeyMsg ''d'')
       = (mOnMain, StatusMessage MainList ''Cannot delete main worktree'', [])"
    by simp
  ultimately show ?thesis using c i reachable_mConfirm by simp
qed

lemma restorePrev_list:
  "cursor (list (restorePrev m)) = cursor (list m)
   \<and> length (items (list (restorePrev m))) = length (items (list m))"
  by (simp add: restorePrev_def)

lemma restorePrev_other:
  assumes "0 \<le> i" and "confirmIndex m \<noteq> i"
  shows "items (list (restorePrev m)) ! nat i = items (list m) ! nat i"
proof (cases "0 \<le> confirmIndex m \<and> confirmIndex m < int (length (items (list m)))")
  case True
  with assms have "nat (confirmIndex m) \<noteq> nat i" by (simp add: nat_eq_iff)
  with True show ?thesis by (simp add: restorePrev_def)
next
  case False
  then show ?thesis by (auto simp add: restorePrev_def)
qed

lemma restorePrev_idle: "confirmIndex m = - 1 \<Longrightarrow> restorePrev m = m"
  by (simp add: restorePrev_def)

text \<open>
  What \<open>d\<close> followed by \<open>esc\<close> does on a selected entry that is not itself under
  confirmation: the list that results is the list before \<open>d\<close> with the saved item put
  back at a pending index, if there was one; with no confirmation pending it is the list
  before \<open>d\<close> itself.
\<close>

lemma delete_then_esc:
  assumes "state m = stateList"
    and "SelectedItem (list m) = Some it" and "\<not> isAdd it" and "\<not> IsMain (wt it)"
    and "confirmIndex m \<noteq> cursor (list m)"
  shows "items (list (fst (Update tk w m (KeyMsg ''d''))))
           = (items (list (restorePrev m)))[nat (cursor (list m)) := confirmItem it]
       \<and> confirmIndex (fst (Update tk w m (KeyMsg ''d''))) = cursor (list m)
       \<and> list (fst (Update tk w (fst (Update tk w m (KeyMsg ''d''))) (KeyMsg ''esc'')))
           = list (restorePrev m)
       \<and> (confirmIndex m = - 1 \<longrightarrow>
            list (fst (Update tk w (fst (Update tk w m (KeyMsg ''d''))) (KeyMsg ''esc''))) = list m
            \<and> map title (items (list (fst (Update tk w (fst (Update tk w m (KeyMsg ''d'')))
                                            (KeyMsg ''esc'')))))
                = map title (items (list m))
            \<and> map desc (items (list (fst (Update tk w (fst (Update tk w m (KeyMsg ''d'')))
                                           (KeyMsg ''esc'')))))
                = map desc (items (list m)))
       \<and> confirmIndex (fst (Update tk w (fst (Update tk w m (KeyMsg ''d''))) (KeyMsg ''esc''))) = - 1
       \<and> state (fst (Update tk w (fst (Update tk w m (KeyMsg ''d''))) (KeyMsg ''esc''))) = stateList"
proof -
  let ?i = "cursor (list m)"
  let ?l0 = "list (restorePrev m)"
  let ?m0 = "if confirmIndex m \<noteq> - 1 then (restorePrev m)\<lparr>confirmIndex := - 1\<rparr> else m"
  let ?m1 = "?m0\<lparr>selected := wt it, confirmIndex := ?i, confirmPrev := it,
                list := ?l0\<lparr>items := (items ?l0)[nat ?i := confirmItem it]\<rparr>\<rparr>"
  from SelectedItem_cursor [OF assms(2)]
  have r: "0 \<le> ?i" "?i < int (length (items (list m)))" "it = items (list m) ! nat ?i"
    by simp_all
  have l0: "list ?m0 = ?l0"
    by (simp add: restorePrev_idle)
  have d: "Update tk w m (KeyMsg ''d'') = (?m1, NoCmd, [])"
    using assms(1-4) l0 restorePrev_list [of m]
    by (simp add: Update_def updateList_def listDelete_def Let_def Index_def)
  have ne: "?i \<noteq> - 1" using r(1) by simp
  have same: "items ?l0 ! nat ?i = it"
    using restorePrev_other [OF r(1) assms(5)] r(3) by simp
  have len: "nat ?i < length (items ?l0)"
    using r restorePrev_list [of m] by simp
  have "(items ?l0)[nat ?i := confirmItem it, nat ?i := it] = items ?l0"
    using list_update_id [of "items ?l0" "nat ?i"] same by simp
  then have l: "list (restorePrev ?m1) = ?l0"
    using r restorePrev_list [of m] by (simp add: restorePrev_def)
  have e: "Update tk w ?m1 (KeyMsg ''esc'') = ((restorePrev ?m1)\<lparr>confirmIndex := - 1\<rparr>, NoCmd, [])"
    using assms(1) ne by (simp add: Update_def updateList_def restorePrev_fields)
  have s: "state (restorePrev ?m1) = stateList"
    using assms(1) by (simp add: restorePrev_fields)
  define m1 where "m1 = fst (Update tk w m (KeyMsg ''d''))"
  define m2 where "m2 = fst (Update tk w m1 (KeyMsg ''esc''))"
  have m1: "m1 = ?m1" unfolding m1_def d by simp
  have m2: "m2 = (restorePrev ?m1)\<lparr>confirmIndex := - 1\<rparr>"
    unfolding m2_def m1 e by simp
  have a1: "items (list m1) = (items ?l0)[nat ?i := confirmItem it]"
    unfolding m1 by simp
  have a2: "confirmIndex m1 = ?i"
    unfolding m1 by simp
  have a3: "list m2 = ?l0"
    unfolding m2 using l by simp
  have a4: "confirmIndex m = - 1 \<longrightarrow>
              list m2 = list m \<and> map title (items (list m2)) = map title (items (list m))
              \<and> map desc (items (list m2)) = map desc (items (list m))"
    using a3 restorePrev_idle [of m] by simp
  have a5: "confirmIndex m2 = - 1"
    unfolding m2 by simp
  have a6: "state m2 = stateList"
    unfolding m2 using s by simp
  from a1 a2 a3 a4 a5 a6 show ?thesis
    unfolding m2_def m1_def by (intro conjI)
qed

lemma reachable_run: "reachable m \<Longrightarrow> reachable (run m mss)"
proof (induction mss arbitrary: m)
  case Nil
  then show ?case by (simp add: run_def)
next
  case (Cons ms mss)
  from Cons.IH [OF reachable_fst [OF Cons.prems, of sampleToolkit sampleWorld ms]]
  show ?case by (simp add: run_def)
qed

text \<open>
  Claim C8 fails on the code where the selected entry is already under confirmation.  In
  the reachable model \<open>mConfirm\<close> (the list loaded, the cursor on \<open>r-b1\<close>, \<open>d\<close>
  pressed once), \<open>d\<close> reads the selected item before it puts the saved one back, so it
  saves the overlaid item and overlays it again; \<open>esc\<close> then leaves the entry with the
  confirmation text as title and description, and no confirmation pending, where the
  entry was \<open>r-b1\<close> before any confirmation.
\<close>

theorem delete_twice_then_esc:
  "reachable mConfirm
   \<and> map title (items (list mOnB1)) = [''[+] Add new worktree'', ''r'', ''r-b1'']
   \<and> confirmIndex mConfirm = 2 \<and> cursor (list mConfirm) = 2
   \<and> SelectedItem (list mConfirm)
       = Some (confirmItem (worktreeItem sampleToolkit sampleWorld wtB1))
   \<and> map title (items (list (run mConfirm [KeyMsg ''d''])))
       = [''[+] Add new worktree'', ''r'',
          ''Are you sure you want to delete: Are you sure you want to delete: r-b1'']
   \<and> confirmIndex (run mConfirm [KeyMsg ''d'']) = 2
   \<and> map title (items (list (run mConfirm [KeyMsg ''d'', KeyMsg ''esc''])))
       = [''[+] Add new worktree'', ''r'', ''Are you sure you want to delete: r-b1'']
   \<and> map desc (items (list (run mConfirm [KeyMsg ''d'', KeyMsg ''esc''])))
       = [''Create from existing or new branch'', ''Path: /r'', ''Yes: Enter    No: Esc'']
   \<and> confirmIndex (run mConfirm [KeyMsg ''d'', KeyMsg ''esc'']) = - 1"
proof -
  have r: "reachable mConfirm" using reachable_mConfirm by (rule conjunct1)
  have e: "map title (items (list mOnB1)) = [''[+] Add new worktree'', ''r'', ''r-b1'']
   \<and> confirmIndex mConfirm = 2 \<and> cursor (list mConfirm) = 2
   \<and> SelectedItem (list mConfirm)
       = Some (confirmItem (worktreeItem sampleToolkit sampleWorld wtB1))
   \<and> map title (items (list (run mConfirm [KeyMsg ''d''])))
       = [''[+] Add new worktree'', ''r'',
          ''Are you sure you want to delete: Are you sure you want to delete: r-b1'']
   \<and> confirmIndex (run mConfirm [KeyMsg ''d'']) = 2
   \<and> map title (items (list (run mConfirm [KeyMsg ''d'', KeyMsg ''esc''])))
       = [''[+] Add new worktree'', ''r'', ''Are you sure you want to delete: r-b1'']
   \<and> map desc (items (list (run mConfirm [KeyMsg ''d'', KeyMsg ''esc''])))
       = [''Create from existing or new branch'', ''Path: /r'', ''Yes: Enter    No: Esc'']
   \<and> confirmIndex (run mConfirm [KeyMsg ''d'', KeyMsg ''esc'']) = - 1"
    by code_simp
  from r e show ?thesis by (rule conjI)
qed

text \<open>
  What single steps do with a pending confirmation: in \<open>stateList\<close>, \<open>d\<close> on a
  selected entry that is neither the synthetic one nor the main worktree first puts the
  saved item back at the pending index, then overlays the confirmation on the selected
  entry and records that entry alone; the key \<open>r\<close> clears the pending index and asks
  for a refresh, leaving the items as they are; and a loaded listing clears the index in
  every state.
\<close>

lemma single_confirmation:
  "(state m = stateList \<and> SelectedItem (list m) = Some it \<and> \<not> isAdd it \<and> \<not> IsMain (wt it)
      \<and> 0 \<le> confirmIndex m
      \<longrightarrow> Update tk w m (KeyMsg ''d'')
            = (m\<lparr>selected := wt it, confirmIndex := cursor (list m), confirmPrev := it,
                  list := (list m)\<lparr>items := (items (list m))
                            [nat (confirmIndex m) := confirmPrev m,
                             nat (cursor (list m)) := confirmItem it]\<rparr>\<rparr>,
               NoCmd, []))
   \<and> (state m = stateList
      \<longrightarrow> Update tk w m (KeyMsg ''r'') = (m\<lparr>confirmIndex := - 1\<rparr>, LoadWorktrees, []))
   \<and> confirmIndex (fst (Update tk w m (LoadedWorktreesMsg wts None))) = - 1"
proof (intro conjI impI)
  assume a: "state m = stateList \<and> SelectedItem (list m) = Some it \<and> \<not> isAdd it \<and> \<not> IsMain (wt it)
      \<and> 0 \<le> confirmIndex m"
  then have ne: "confirmIndex m \<noteq> - 1" by simp
  have r: "(restorePrev m)\<lparr>confirmIndex := - 1\<rparr>
             = m\<lparr>confirmIndex := - 1,
                 list := (list m)\<lparr>items := (items (list m))[nat (confirmIndex m) := confirmPrev m]\<rparr>\<rparr>"
  proof (cases "confirmIndex m < int (length (items (list m)))")
    case True
    with a show ?thesis by (simp add: restorePrev_def)
  next
    case False
    then have "length (items (list m)) \<le> nat (confirmIndex m)" by simp
    then have "(items (list m))[nat (confirmIndex m) := confirmPrev m] = items (list m)"
      by (rule list_update_beyond)
    with False show ?thesis by (simp add: restorePrev_def)
  qed
  show "Update tk w m (KeyMsg ''d'')
            = (m\<lparr>selected := wt it, confirmIndex := cursor (list m), confirmPrev := it,
                  list := (list m)\<lparr>items := (items (list m))
                            [nat (confirmIndex m) := confirmPrev m,
                             nat (cursor (list m)) := confirmItem it]\<rparr>\<rparr>,
               NoCmd, [])"
    using a ne unfolding Update_def updateList_def listDelete_def Let_def r
    by (simp add: Index_def)
next
  assume "state m = stateList"
  then show "Update tk w m (KeyMsg ''r'') = (m\<lparr>confirmIndex := - 1\<rparr>, LoadWorktrees, [])"
    by (simp add: Update_def updateList_def)
next
  show "confirmIndex (fst (Update tk w m (LoadedWorktreesMsg wts None))) = - 1"
    by (simp add: Update_def)
qed

text \<open>
  Claim C9 fails on the code after \<open>r\<close>.  The key \<open>r\<close> sets the pending index to
  \<open>- 1\<close> and leaves the overlaid item in the list (\<open>esc\<close> and a failed removal put the
  saved item back first).  Until a listing is loaded the entry keeps its confirmation
  text, and \<open>d\<close> on another entry overlays that one too: in the reachable model below,
  two entries bear a delete confirmation.
\<close>

theorem refresh_leaves_overlay:
  "reachable (run initialModel
                [LoadedWorktreesMsg [wtMain, wtB1, wtB2] None,
                 KeyMsg ''j'', KeyMsg ''j'', KeyMsg ''d'', KeyMsg ''r'', KeyMsg ''j'', KeyMsg ''d''])
   \<and> confirmIndex (run initialModel
                [LoadedWorktreesMsg [wtMain, wtB1, wtB2] None,
                 KeyMsg ''j'', KeyMsg ''j'', KeyMsg ''d'', KeyMsg ''r'']) = - 1
   \<and> map title (items (list (run initialModel
                [LoadedWorktreesMsg [wtMain, wtB1, wtB2] None,
                 KeyMsg ''j'', KeyMsg ''j'', KeyMsg ''d'', KeyMsg ''r''])))
       = [''[+] Add new worktree'', ''r'', ''Are you sure you want to delete: r-b1'', ''r-b2'']
   \<and> map title (items (list (run initialModel
                [LoadedWorktreesMsg [wtMain, wtB1, wtB2] None,
                 KeyMsg ''j'', KeyMsg ''j'', KeyMsg ''d'', KeyMsg ''r'', KeyMsg ''j'', KeyMsg ''d''])))
       = [''[+] Add new worktree'', ''r'', ''Are you sure you want to delete: r-b1'',
          ''Are you sure you want to delete: r-b2'']
   \<and> confirmIndex (run initialModel
                [LoadedWorktreesMsg [wtMain, wtB1, wtB2] None,
                 KeyMsg ''j'', KeyMsg ''j'', KeyMsg ''d'', KeyMsg ''r'', KeyMsg ''j'', KeyMsg ''d'']) = 3"
proof -
  have r: "reachable (run initialModel
                [LoadedWorktreesMsg [wtMain, wtB1, wtB2] None,
                 KeyMsg ''j'', KeyMsg ''j'', KeyMsg ''d'', KeyMsg ''r'', KeyMsg ''j'', KeyMsg ''d''])"
    by (rule reachable_run [OF reachable_init])
  have e: "confirmIndex (run initialModel
                [LoadedWorktreesMsg [wtMain, wtB1, wtB2] None,
                 KeyMsg ''j'', KeyMsg ''j'', KeyMsg ''d'', KeyMsg ''r'']) = - 1
   \<and> map title (items (list (run initialModel
                [LoadedWorktreesMsg [wtMain, wtB1, wtB2] None,
                 KeyMsg ''j'', KeyMsg ''j'', KeyMsg ''d'', KeyMsg ''r''])))
       = [''[+] Add new worktree'', ''r'', ''Are you sure you want to delete: r-b1'', ''r-b2'']
   \<and> map title (items (list (run initialModel
                [LoadedWorktreesMsg [wtMain, wtB1, wtB2] None,
                 KeyMsg ''j'', KeyMsg ''j'', KeyMsg ''d'', KeyMsg ''r'', KeyMsg ''j'', KeyMsg ''d''])))
       = [''[+] Add new worktree'', ''r'', ''Are you sure you want to delete: r-b1'',
          ''Are you sure you want to delete: r-b2'']
   \<and> confirmIndex (run initialModel
                [LoadedWorktreesMsg [wtMain, wtB1, wtB2] None,
                 KeyMsg ''j'', KeyMsg ''j'', KeyMsg ''d'', KeyMsg ''r'', KeyMsg ''j'', KeyMsg ''d'']) = 3"
    by code_simp
  from r e show ?thesis by (rule conjI)
qed

section \<open>Properties of the key q\<close>

text \<open>
  Claim C10, as stated, fails in the picker: the key \<open>q\<close> is handed to the list widget,
  and with a widget that binds \<open>q\<close> to quitting (as the default key map of the list
  widget does) \<open>Update\<close> returns the quit command.
\<close>

theorem picker_q_counterexample:
  "state mPick = stateAddPick \<and> \<not> editingNow mPick
   \<and> Update quittingToolkit sampleWorld mPick (KeyMsg ''q'') = (mPick, Quit, [])"
  by code_simp

text \<open>
  Claim C10, amended.  In \<open>stateList\<close> the key \<open>q\<close> returns the quit command, exactly
  as \<open>ctrl+c\<close> does.  In the picker \<open>Update\<close> has no case for \<open>q\<close>: when not
  editing, the key goes to the list widget of the branches and the command of that widget
  is returned as it is; when editing, the key goes to the text input, the new value is
  mirrored into the title of the first entry, and the command of the text input is
  returned.
\<close>

theorem q_key:
  "(state m = stateList
      \<longrightarrow> Update tk w m (KeyMsg ''q'') = (m, Quit, [])
          \<and> Update tk w m (KeyMsg ''q'') = Update tk w m (KeyMsg ''ctrl+c''))
   \<and> (state m = stateAddPick \<and> \<not> editingNow m
      \<longrightarrow> Update tk w m (KeyMsg ''q'')
            = (m\<lparr>branches := fst (listUpdate tk (branches m) ''q'')\<rparr>,
               snd (listUpdate tk (branches m) ''q''), []))
   \<and> (state m = stateAddPick \<and> editingNow m
      \<longrightarrow> Update tk w m (KeyMsg ''q'')
            = (updateAddItemTitle (val (fst (inputUpdate tk (input m) ''q'')))
                 (m\<lparr>input := fst (inputUpdate tk (input m) ''q'')\<rparr>),
               snd (inputUpdate tk (input m) ''q''), []))"
  by (simp add: Update_def updateList_def updatePick_def updateEditing_def split: prod.splits)

theorem q_key_witness:
  "Update sampleToolkit sampleWorld mLoaded (KeyMsg ''q'') = (mLoaded, Quit, [])
   \<and> Update sampleToolkit sampleWorld mPick (KeyMsg ''q'') = (mPick, NoCmd, [])
   \<and> map title (items (branches (fst (Update sampleToolkit sampleWorld (mEditing ''ab'') (KeyMsg ''q'')))))
       = [''abq'', ''dev'', ''release'']
   \<and> fst (snd (Update sampleToolkit sampleWorld (mEditing ''ab'') (KeyMsg ''q''))) = NoCmd"
proof -
  have s1: "state mLoaded = stateList" by code_simp
  have s2: "state mPick = stateAddPick \<and> \<not> editingNow mPick" by code_simp
  have l: "listUpdate sampleToolkit (branches mPick) ''q'' = (branches mPick, NoCmd)"
    by (simp add: sampleToolkit_def)
  have i: "inputUpdate sampleToolkit (input (mEditing ''ab'')) ''q''
             = (\<lparr>val = ''abq'', focused = True\<rparr>, NoCmd)"
    by (simp add: sampleToolkit_def mEditing_def)
  have e: "map title (items (branches (updateAddItemTitle ''abq''
             ((mEditing ''ab'')\<lparr>input := \<lparr>val = ''abq'', focused = True\<rparr>\<rparr>))))
           = [''abq'', ''dev'', ''release'']"
    by code_simp
  note a = q_key [of mLoaded sampleToolkit sampleWorld, THEN conjunct1]
  note b = q_key [of mPick sampleToolkit sampleWorld, THEN conjunct2, THEN conjunct1]
  note c = q_key [of "mEditing ''ab''" sampleToolkit sampleWorld, THEN conjunct2, THEN conjunct2]
  from a s1 have r1: "Update sampleToolkit sampleWorld mLoaded (KeyMsg ''q'') = (mLoaded, Quit, [])"
    by simp
  from b s2 l have r2: "Update sampleToolkit sampleWorld mPick (KeyMsg ''q'') = (mPick, NoCmd, [])"
    by simp
  from c mEditing_state [of "''ab''"] i
  have r3: "Update sampleToolkit sampleWorld (mEditing ''ab'') (KeyMsg ''q'')
              = (updateAddItemTitle ''abq'' ((mEditing ''ab'')\<lparr>input := \<lparr>val = ''abq'', focused = True\<rparr>\<rparr>),
                 NoCmd, [])"
    by simp
  show ?thesis unfolding r1 r2 r3 using e by simp
qed

end
